theory Spec2Isabelle
  imports Complex_Main "HOL-Library.Sublist" "HOL-Library.AList"
begin

section \<open>Strings and the character classes of the regular expressions\<close>

text \<open>
  File names are Python \<open>str\<close> values. A \<^typ>\<open>char\<close> stands for one code point in the
  range 0..255 (ASCII and Latin-1); names with code points beyond that range are outside
  this development. The classes below are those of Python's \<open>re\<close> module on \<open>str\<close>
  patterns, restricted to that range: \<open>\w\<close> is \<open>str.isalnum\<close> or the underscore,
  \<open>\s\<close> is \<open>str.isspace\<close>, \<open>\d\<close> is \<open>str.isdecimal\<close>.
\<close>

definition is_word_char :: "char \<Rightarrow> bool" where
  "is_word_char c =
     (let n = (of_char c :: nat) in
        (48 \<le> n \<and> n \<le> 57) \<or> (65 \<le> n \<and> n \<le> 90) \<or> n = 95 \<or> (97 \<le> n \<and> n \<le> 122)
        \<or> n = 170 \<or> n = 178 \<or> n = 179 \<or> n = 181 \<or> n = 185 \<or> n = 186
        \<or> (188 \<le> n \<and> n \<le> 190) \<or> (192 \<le> n \<and> n \<le> 214) \<or> (216 \<le> n \<and> n \<le> 246)
        \<or> 248 \<le> n)"

definition is_space_char :: "char \<Rightarrow> bool" where
  "is_space_char c =
     (let n = (of_char c :: nat) in
        (9 \<le> n \<and> n \<le> 13) \<or> (28 \<le> n \<and> n \<le> 32) \<or> n = 133 \<or> n = 160)"

definition is_digit_char :: "char \<Rightarrow> bool" where
  "is_digit_char c = (let n = (of_char c :: nat) in 48 \<le> n \<and> n \<le> 57)"

text \<open>\<open>str.lower()\<close>, one code point at a time.\<close>

definition lower_char :: "char \<Rightarrow> char" where
  "lower_char c =
     (let n = (of_char c :: nat) in
        if (65 \<le> n \<and> n \<le> 90) \<or> (192 \<le> n \<and> n \<le> 214) \<or> (216 \<le> n \<and> n \<le> 222)
        then char_of (n + 32) else c)"

definition lower :: "string \<Rightarrow> string" where
  "lower s = map lower_char s"

text \<open>\<open>s.strip()\<close>\<close>

definition strip :: "string \<Rightarrow> string" where
  "strip s = rev (dropWhile is_space_char (rev (dropWhile is_space_char s)))"

text \<open>\<open>kw in s\<close> on strings: \<open>kw\<close> occurs in \<open>s\<close> as a contiguous substring.\<close>

fun contains :: "string \<Rightarrow> string \<Rightarrow> bool" where
  "contains kw [] = (kw = [])"
| "contains kw (c # cs) = (prefix kw (c # cs) \<or> contains kw cs)"

text \<open>\<open>s.rfind(c)\<close> for a single character: the last index of \<open>c\<close>, or \<open>-1\<close>.\<close>

fun rfind_from :: "char \<Rightarrow> string \<Rightarrow> int \<Rightarrow> int \<Rightarrow> int" where
  "rfind_from c [] i found = found"
| "rfind_from c (x # xs) i found = rfind_from c xs (i + 1) (if x = c then i else found)"

definition rfind :: "string \<Rightarrow> char \<Rightarrow> int" where
  "rfind s c = rfind_from c s 0 (- 1)"

text \<open>\<open>os.path.basename\<close> and the first component of \<open>os.path.splitext\<close> (POSIX).\<close>

definition basename :: "string \<Rightarrow> string" where
  "basename p = drop (nat (rfind p CHR ''/'' + 1)) p"

definition splitext_root :: "string \<Rightarrow> string" where
  "splitext_root p =
     (let sepIndex = rfind p CHR ''/'';
          dotIndex = rfind p CHR ''.''
      in if dotIndex > sepIndex
            \<and> list_ex (\<lambda>c. c \<noteq> CHR ''.'')
                 (take (nat (dotIndex - (sepIndex + 1))) (drop (nat (sepIndex + 1)) p))
         then take (nat dotIndex) p
         else p)"

section \<open>Keyword classifiers\<close>

subsection \<open>Word-boundary search: \<open>re.search(r'\b' + re.escape(keyword) + r'\b', s)\<close>\<close>

text \<open>
  \<open>\b\<close> holds at a position when exactly one of the characters before and after it is a
  word character; a missing neighbour (either end of the string) counts as a non-word
  character.
\<close>

definition is_word_opt :: "char option \<Rightarrow> bool" where
  "is_word_opt x = (case x of None \<Rightarrow> False | Some c \<Rightarrow> is_word_char c)"

definition first_char :: "string \<Rightarrow> char option" where
  "first_char s = (case s of [] \<Rightarrow> None | c # _ \<Rightarrow> Some c)"

definition at_boundary :: "char option \<Rightarrow> string \<Rightarrow> bool" where
  "at_boundary prev rest = (is_word_opt prev \<noteq> is_word_opt (first_char rest))"

definition keyword_here :: "string \<Rightarrow> char option \<Rightarrow> string \<Rightarrow> bool" where
  "keyword_here kw prev s =
     (at_boundary prev s \<and> prefix kw s
      \<and> at_boundary (if kw = [] then prev else Some (last kw)) (drop (length kw) s))"

fun search_from :: "string \<Rightarrow> char option \<Rightarrow> string \<Rightarrow> bool" where
  "search_from kw prev [] = keyword_here kw prev []"
| "search_from kw prev (c # cs) =
     (keyword_here kw prev (c # cs) \<or> search_from kw (Some c) cs)"

definition search_word :: "string \<Rightarrow> string \<Rightarrow> bool" where
  "search_word kw s = search_from kw None s"

subsection \<open>organize\_documents.py and streamlined\_education\_pdf\_to\_json.py\<close>

definition solution_keywords :: "string list" where
  "solution_keywords =
     [''solution'', ''solutions'', ''soln'', ''solns'', ''sol'', ''sols'',
      ''answer'', ''answers'', ''ans'', ''anss'',
      ''worked'', ''worked example'', ''worked examples'',
      ''key'', ''keys'', ''answer key'', ''answer keys'',
      ''suggested solutions'', ''suggested solution'',
      ''tutor'', ''teacher'', ''teachers'', ''tutors'']"

definition question_keywords :: "string list" where
  "question_keywords =
     [''question'', ''questions'', ''qn'', ''qns'',
      ''problem'', ''problems'', ''exercise'', ''exercises'',
      ''worksheet'', ''worksheets'', ''assignment'', ''assignments'',
      ''practice'', ''test'', ''exam'', ''quiz'', ''tutorial'',
      ''student'', ''package'', ''revision'']"

definition note_keywords :: "string list" where
  "note_keywords =
     [''note'', ''notes'', ''lecture'', ''lectures'', ''summary'', ''summaries'',
      ''chapter'', ''chapters'', ''topic'', ''topics'', ''theory'', ''concept'',
      ''learning package'', ''guide'', ''handbook'', ''manual'', ''reference'',
      ''cheat sheet'', ''formula'', ''definition'', ''explanation'']"

definition is_solution_file :: "string \<Rightarrow> bool" where
  "is_solution_file filename =
     (let lower_filename = lower filename
      in list_ex (\<lambda>keyword. search_word keyword lower_filename) solution_keywords)"

definition is_question_file :: "string \<Rightarrow> bool" where
  "is_question_file filename =
     (let lower_filename = lower filename
      in list_ex (\<lambda>keyword. search_word keyword lower_filename) question_keywords)"

definition is_note_file :: "string \<Rightarrow> bool" where
  "is_note_file filename =
     (let lower_filename = lower filename
      in list_ex (\<lambda>keyword. search_word keyword lower_filename) note_keywords)"

subsection \<open>quick\_organize\_files.py and organize\_question\_solution\_pairs.py\<close>

definition quick_solution_keywords :: "string list" where
  "quick_solution_keywords =
     [''solution'', ''solutions'', ''soln'', ''solns'', ''sol'', ''sols'',
      ''answer'', ''answers'', ''ans'', ''anss'',
      ''worked'', ''worked example'', ''worked examples'',
      ''key'', ''keys'', ''answer key'', ''answer keys'']"

definition quick_question_keywords :: "string list" where
  "quick_question_keywords =
     [''question'', ''questions'', ''qn'', ''qns'',
      ''problem'', ''problems'', ''exercise'', ''exercises'',
      ''worksheet'', ''worksheets'', ''assignment'', ''assignments'',
      ''practice'', ''test'', ''exam'', ''quiz'']"

definition quick_is_solution_file :: "string \<Rightarrow> bool" where
  "quick_is_solution_file filename =
     (let lower_filename = lower filename
      in list_ex (\<lambda>keyword. contains keyword lower_filename) quick_solution_keywords)"

definition quick_is_question_file :: "string \<Rightarrow> bool" where
  "quick_is_question_file filename =
     (let lower_filename = lower filename
      in list_ex (\<lambda>keyword. contains keyword lower_filename) quick_question_keywords)"

section \<open>Filename similarity\<close>

subsection \<open>Removing a role keyword: \<open>re.sub(r'(?i)(_|\s|-|^)' + keyword + r's?(?:_|\s|-|$)', '', base)\<close>\<close>

definition is_delim :: "char \<Rightarrow> bool" where
  "is_delim c = (c = CHR ''_'' \<or> is_space_char c \<or> c = CHR ''-'')"

text \<open>
  The closing group \<open>(?:_|\s|-|$)\<close>: one delimiter character, or nothing at the end of the
  string; \<open>$\<close> also holds just before a final newline. The result is the number of
  characters consumed.
\<close>

definition closing_len :: "string \<Rightarrow> nat option" where
  "closing_len s =
     (case s of
        [] \<Rightarrow> Some 0
      | c # cs \<Rightarrow>
          if is_delim c then Some 1
          else if c = CHR 0x0A \<and> cs = [] then Some 0
          else None)"

text \<open>The greedy \<open>s?\<close> followed by the closing group, with backtracking over \<open>s?\<close>.\<close>

definition plural_closing_len :: "string \<Rightarrow> nat option" where
  "plural_closing_len s =
     (case s of
        [] \<Rightarrow> closing_len []
      | c # cs \<Rightarrow>
          if lower_char c = CHR ''s''
          then (case closing_len cs of Some k \<Rightarrow> Some (Suc k) | None \<Rightarrow> closing_len s)
          else closing_len s)"

text \<open>The keyword itself, compared under \<open>(?i)\<close>, then the rest of the pattern.\<close>

fun ci_prefix :: "string \<Rightarrow> string \<Rightarrow> bool" where
  "ci_prefix [] s = True"
| "ci_prefix (k # ks) [] = False"
| "ci_prefix (k # ks) (c # cs) = (lower_char c = lower_char k \<and> ci_prefix ks cs)"

definition keyword_len :: "string \<Rightarrow> string \<Rightarrow> nat option" where
  "keyword_len keyword s =
     (if ci_prefix keyword s
      then map_option (\<lambda>k. length keyword + k) (plural_closing_len (drop (length keyword) s))
      else None)"

text \<open>
  A match starting at the current position: the opening group \<open>(_|\s|-|^)\<close> tries a
  delimiter character first and falls back to \<open>^\<close>, which holds at index 0 only.
\<close>

definition match_len :: "bool \<Rightarrow> string \<Rightarrow> string \<Rightarrow> nat option" where
  "match_len at_start keyword s =
     (case (case s of
              [] \<Rightarrow> None
            | c # cs \<Rightarrow> if is_delim c then map_option Suc (keyword_len keyword cs) else None)
      of Some n \<Rightarrow> Some n
       | None \<Rightarrow> if at_start then keyword_len keyword s else None)"

text \<open>
  \<open>re.sub\<close> with the empty replacement: scan from the left, drop every match, copy every
  other character. A match of length 0 would need an empty keyword; it replaces nothing.
\<close>

fun re_sub_keyword :: "bool \<Rightarrow> string \<Rightarrow> string \<Rightarrow> string" where
  "re_sub_keyword at_start keyword [] = []"
| "re_sub_keyword at_start keyword (c # cs) =
     (case match_len at_start keyword (c # cs) of
        None \<Rightarrow> c # re_sub_keyword False keyword cs
      | Some 0 \<Rightarrow> c # re_sub_keyword False keyword cs
      | Some (Suc m) \<Rightarrow> re_sub_keyword False keyword (drop m cs))"

definition solution_indicators :: "string list" where
  "solution_indicators =
     [''solution'', ''solutions'', ''soln'', ''solns'', ''sol'', ''sols'',
      ''answer'', ''answers'', ''ans'', ''anss'']"

definition question_indicators :: "string list" where
  "question_indicators =
     [''question'', ''questions'', ''qn'', ''qns'',
      ''problem'', ''problems'', ''exercise'', ''exercises'']"

text \<open>The \<open>for keyword in [...]\<close> loops, one string at a time.\<close>

definition remove_indicators :: "string list \<Rightarrow> string \<Rightarrow> string" where
  "remove_indicators keywords base = fold (\<lambda>keyword b. re_sub_keyword True keyword b) keywords base"

subsection \<open>\<open>re.findall(r'\w+', base)\<close>: the maximal runs of word characters\<close>

fun findall_from :: "string \<Rightarrow> string \<Rightarrow> string list" where
  "findall_from cur [] = (if cur = [] then [] else [cur])"
| "findall_from cur (c # cs) =
     (if is_word_char c then findall_from (cur @ [c]) cs
      else if cur = [] then findall_from [] cs
      else cur # findall_from [] cs)"

definition findall_words :: "string \<Rightarrow> string list" where
  "findall_words base = findall_from [] base"

subsection \<open>\<open>calculate_filename_similarity\<close>\<close>

text \<open>
  The score is a Python float, the quotient of two token counts. It is kept here as the
  exact rational; thresholds are rationals as well.
\<close>

definition calculate_filename_similarity :: "string \<Rightarrow> string \<Rightarrow> rat" where
  "calculate_filename_similarity file1 file2 =
     (let base1 = lower (splitext_root file1);
          base2 = lower (splitext_root file2);
          base1 = remove_indicators solution_indicators base1;
          base2 = remove_indicators solution_indicators base2;
          base1 = remove_indicators question_indicators base1;
          base2 = remove_indicators question_indicators base2;
          words1 = set (findall_words base1);
          words2 = set (findall_words base2)
      in if words1 = {} \<or> words2 = {} then 0
         else of_nat (card (words1 \<inter> words2)) / of_nat (max (card words1) (card words2)))"

section \<open>Pairing in streamlined\_education\_pdf\_to\_json.py\<close>

text \<open>
  The loops of \<open>find_question_solution_pairs\<close> update two variables: the list \<open>pairs\<close> and
  the set \<open>paired_files\<close>. They are threaded through the recursion as a pair.
\<close>

type_synonym pairing_state = "(string \<times> string) list \<times> string set"

text \<open>
  The role tests of the source, \<open>is_solution_file(os.path.basename(f)) and not
  is_question_file(os.path.basename(f))\<close> and its mirror image.
\<close>

definition file_is_sol :: "string \<Rightarrow> bool" where
  "file_is_sol f = (is_solution_file (basename f) \<and> \<not> is_question_file (basename f))"

definition file_is_q :: "string \<Rightarrow> bool" where
  "file_is_q f = (is_question_file (basename f) \<and> \<not> is_solution_file (basename f))"

text \<open>The inner loop of the first pass: \<open>for q_file in question_files\<close>.\<close>

fun best_match_loop ::
  "rat \<Rightarrow> string \<Rightarrow> string set \<Rightarrow> string list \<Rightarrow> string option \<times> rat \<Rightarrow> string option \<times> rat"
where
  "best_match_loop similarity_threshold sol_file paired_files [] (best_match, best_score) =
     (best_match, best_score)"
| "best_match_loop similarity_threshold sol_file paired_files (q_file # rest) (best_match, best_score) =
     (if q_file \<in> paired_files
      then best_match_loop similarity_threshold sol_file paired_files rest (best_match, best_score)
      else
        let similarity = calculate_filename_similarity (basename sol_file) (basename q_file)
        in if similarity > similarity_threshold \<and> similarity > best_score
           then best_match_loop similarity_threshold sol_file paired_files rest (Some q_file, similarity)
           else best_match_loop similarity_threshold sol_file paired_files rest (best_match, best_score))"

text \<open>\<open>if best_match:\<close> is false for \<open>None\<close> and for the empty string.\<close>

definition truthy :: "string option \<Rightarrow> bool" where
  "truthy best_match = (case best_match of None \<Rightarrow> False | Some q \<Rightarrow> q \<noteq> [])"

text \<open>The first pass: \<open>for sol_file in solution_files\<close>.\<close>

fun first_pass :: "rat \<Rightarrow> string list \<Rightarrow> string list \<Rightarrow> pairing_state \<Rightarrow> pairing_state" where
  "first_pass similarity_threshold question_files [] (pairs, paired_files) = (pairs, paired_files)"
| "first_pass similarity_threshold question_files (sol_file # rest) (pairs, paired_files) =
     (if sol_file \<in> paired_files
      then first_pass similarity_threshold question_files rest (pairs, paired_files)
      else
        let best_match =
              fst (best_match_loop similarity_threshold sol_file paired_files question_files (None, 0))
        in if truthy best_match
           then first_pass similarity_threshold question_files rest
                  (pairs @ [(sol_file, the best_match)],
                   insert (the best_match) (insert sol_file paired_files))
           else first_pass similarity_threshold question_files rest (pairs, paired_files))"

text \<open>The inner loop of the second pass: \<open>for file2 in remaining_files[i+1:]\<close>.\<close>

fun second_pass_inner :: "rat \<Rightarrow> string \<Rightarrow> string list \<Rightarrow> pairing_state \<Rightarrow> pairing_state" where
  "second_pass_inner similarity_threshold file1 [] (pairs, paired_files) = (pairs, paired_files)"
| "second_pass_inner similarity_threshold file1 (file2 # rest) (pairs, paired_files) =
     (if file2 \<in> paired_files
      then second_pass_inner similarity_threshold file1 rest (pairs, paired_files)
      else
        let similarity = calculate_filename_similarity (basename file1) (basename file2)
        in if similarity > similarity_threshold
           then
             if file_is_sol file1 \<and> file_is_q file2
             then second_pass_inner similarity_threshold file1 rest
                    (pairs @ [(file1, file2)], insert file2 (insert file1 paired_files))
             else if file_is_q file1 \<and> file_is_sol file2
             then second_pass_inner similarity_threshold file1 rest
                    (pairs @ [(file2, file1)], insert file2 (insert file1 paired_files))
             else second_pass_inner similarity_threshold file1 rest (pairs, paired_files)
           else second_pass_inner similarity_threshold file1 rest (pairs, paired_files))"

text \<open>The second pass: \<open>for i, file1 in enumerate(remaining_files)\<close>.\<close>

fun second_pass :: "rat \<Rightarrow> string list \<Rightarrow> pairing_state \<Rightarrow> pairing_state" where
  "second_pass similarity_threshold [] (pairs, paired_files) = (pairs, paired_files)"
| "second_pass similarity_threshold (file1 # rest) (pairs, paired_files) =
     (if file1 \<in> paired_files
      then second_pass similarity_threshold rest (pairs, paired_files)
      else second_pass similarity_threshold rest
             (second_pass_inner similarity_threshold file1 rest (pairs, paired_files)))"

definition find_question_solution_pairs ::
  "string list \<Rightarrow> rat \<Rightarrow> (string \<times> string) list \<times> string list"
where
  "find_question_solution_pairs file_list similarity_threshold =
     (let solution_files = filter file_is_sol file_list;
          question_files = filter file_is_q file_list;
          (pairs, paired_files) =
             first_pass similarity_threshold question_files solution_files ([], {});
          remaining_files = filter (\<lambda>f. f \<notin> paired_files) file_list;
          (pairs, paired_files) =
             second_pass similarity_threshold remaining_files (pairs, paired_files);
          unpaired_files = filter (\<lambda>f. f \<notin> paired_files) file_list
      in (pairs, unpaired_files))"

section \<open>Document classification in organize\_documents.py\<close>

subsection \<open>The fallback patterns of \<open>classify_document\<close>\<close>

text \<open>
  \<open>re.search\<close> is used for its truth value only, so a pattern is modelled by the question
  whether some match exists. A pattern is read from left to right; each piece takes the
  rest of the pattern as a predicate on the remaining input.
\<close>

text \<open>Some start position admits a match.\<close>

fun re_search :: "(string \<Rightarrow> bool) \<Rightarrow> string \<Rightarrow> bool" where
  "re_search p [] = p []"
| "re_search p (c # cs) = (p (c # cs) \<or> re_search p cs)"

text \<open>A literal word, then the rest.\<close>

definition lit :: "string \<Rightarrow> (string \<Rightarrow> bool) \<Rightarrow> string \<Rightarrow> bool" where
  "lit w p s = (prefix w s \<and> p (drop (length w) s))"

text \<open>An alternation of literal words \<open>(w1|w2|...)\<close>, then the rest.\<close>

definition alt :: "string list \<Rightarrow> (string \<Rightarrow> bool) \<Rightarrow> string \<Rightarrow> bool" where
  "alt ws p s = list_ex (\<lambda>w. lit w p s) ws"

text \<open>\<open>.*\<close> (any characters but the newline), then the rest.\<close>

fun dot_star :: "(string \<Rightarrow> bool) \<Rightarrow> string \<Rightarrow> bool" where
  "dot_star p [] = p []"
| "dot_star p (c # cs) = (p (c # cs) \<or> (c \<noteq> CHR 0x0A \<and> dot_star p cs))"

text \<open>\<open>\d\<close>, then the rest.\<close>

definition digit :: "(string \<Rightarrow> bool) \<Rightarrow> string \<Rightarrow> bool" where
  "digit p s = (case s of [] \<Rightarrow> False | c # cs \<Rightarrow> is_digit_char c \<and> p cs)"

text \<open>The end of the pattern.\<close>

definition matched :: "string \<Rightarrow> bool" where
  "matched s = True"

text \<open>\<open>(bmq|apq).*sol\<close>\<close>

definition paper_code_with_sol :: "string \<Rightarrow> bool" where
  "paper_code_with_sol s = re_search (alt [''bmq'', ''apq''] (dot_star (lit ''sol'' matched))) s"

text \<open>\<open>(bmq|apq)(?!.*sol)\<close>\<close>

definition paper_code_without_sol :: "string \<Rightarrow> bool" where
  "paper_code_without_sol s =
     re_search (alt [''bmq'', ''apq''] (\<lambda>rest. \<not> dot_star (lit ''sol'' matched) rest)) s"

text \<open>\<open>(ch|chapter|topic).*\d\<close>\<close>

definition chapter_number :: "string \<Rightarrow> bool" where
  "chapter_number s = re_search (alt [''ch'', ''chapter'', ''topic''] (dot_star (digit matched))) s"

text \<open>\<open>(tutor|teacher|lecturer)\<close>\<close>

definition staff_word :: "string \<Rightarrow> bool" where
  "staff_word s = re_search (alt [''tutor'', ''teacher'', ''lecturer''] matched) s"

subsection \<open>\<open>classify_document\<close>\<close>

text \<open>The \<open>else\<close> branch: the naming patterns, tried in order on the lowercased name.\<close>

definition classify_by_pattern :: "string \<Rightarrow> string" where
  "classify_by_pattern filename =
     (let lower_filename = lower filename
      in if paper_code_with_sol lower_filename then ''solution''
         else if paper_code_without_sol lower_filename then ''question_paper''
         else if chapter_number lower_filename then ''standalone_note''
         else if staff_word lower_filename then ''notes_with_solutions''
         else ''unknown'')"

definition classify_document :: "string \<Rightarrow> string" where
  "classify_document filename =
     (let is_solution = is_solution_file filename;
          is_question = is_question_file filename;
          is_note = is_note_file filename
      in if is_solution \<and> is_question then ''combined_question_solution''
         else if is_solution \<and> is_note then ''notes_with_solutions''
         else if is_question \<and> is_note then ''notes_with_questions''
         else if is_solution then ''solution''
         else if is_question then ''question_paper''
         else if is_note then ''standalone_note''
         else classify_by_pattern filename)"

subsection \<open>\<open>find_pairs_and_classify\<close>\<close>

text \<open>
  The function reads the directory with \<open>os.listdir\<close>; the listing is the input here. It
  has no \<open>raise\<close> statement and calls nothing that raises on strings, so it always returns;
  the result is wrapped in a sum type only to compare it with the failure the
  specification names.
\<close>

datatype pairing_error = InvalidArgument

type_synonym grouping_state = "string list list \<times> string set"

definition doc_is_sol :: "string \<Rightarrow> bool" where
  "doc_is_sol f = (is_solution_file f \<and> \<not> is_question_file f)"

definition doc_is_q :: "string \<Rightarrow> bool" where
  "doc_is_q f = (is_question_file f \<and> \<not> is_solution_file f)"

fun doc_best_match_loop ::
  "rat \<Rightarrow> string \<Rightarrow> string set \<Rightarrow> string list \<Rightarrow> string option \<times> rat \<Rightarrow> string option \<times> rat"
where
  "doc_best_match_loop similarity_threshold sol_file paired_files [] (best_match, best_score) =
     (best_match, best_score)"
| "doc_best_match_loop similarity_threshold sol_file paired_files (q_file # rest) (best_match, best_score) =
     (if q_file \<in> paired_files
      then doc_best_match_loop similarity_threshold sol_file paired_files rest (best_match, best_score)
      else
        let similarity = calculate_filename_similarity sol_file q_file
        in if similarity > similarity_threshold \<and> similarity > best_score
           then doc_best_match_loop similarity_threshold sol_file paired_files rest (Some q_file, similarity)
           else doc_best_match_loop similarity_threshold sol_file paired_files rest (best_match, best_score))"

fun doc_first_pass :: "rat \<Rightarrow> string list \<Rightarrow> string list \<Rightarrow> grouping_state \<Rightarrow> grouping_state" where
  "doc_first_pass similarity_threshold question_files [] (pairs, paired_files) = (pairs, paired_files)"
| "doc_first_pass similarity_threshold question_files (sol_file # rest) (pairs, paired_files) =
     (if sol_file \<in> paired_files
      then doc_first_pass similarity_threshold question_files rest (pairs, paired_files)
      else
        let best_match =
              fst (doc_best_match_loop similarity_threshold sol_file paired_files question_files (None, 0))
        in if truthy best_match
           then doc_first_pass similarity_threshold question_files rest
                  (pairs @ [ [sol_file, the best_match] ],
                   insert (the best_match) (insert sol_file paired_files))
           else doc_first_pass similarity_threshold question_files rest (pairs, paired_files))"

fun doc_second_pass_inner :: "rat \<Rightarrow> string \<Rightarrow> string list \<Rightarrow> grouping_state \<Rightarrow> grouping_state" where
  "doc_second_pass_inner similarity_threshold file1 [] (pairs, paired_files) = (pairs, paired_files)"
| "doc_second_pass_inner similarity_threshold file1 (file2 # rest) (pairs, paired_files) =
     (if file2 \<in> paired_files
      then doc_second_pass_inner similarity_threshold file1 rest (pairs, paired_files)
      else
        let similarity = calculate_filename_similarity file1 file2
        in if similarity > similarity_threshold
           then
             if (doc_is_sol file1 \<and> doc_is_q file2) \<or> (doc_is_q file1 \<and> doc_is_sol file2)
             then doc_second_pass_inner similarity_threshold file1 rest
                    (pairs @ [ [file1, file2] ], insert file2 (insert file1 paired_files))
             else doc_second_pass_inner similarity_threshold file1 rest (pairs, paired_files)
           else doc_second_pass_inner similarity_threshold file1 rest (pairs, paired_files))"

fun doc_second_pass :: "rat \<Rightarrow> string list \<Rightarrow> grouping_state \<Rightarrow> grouping_state" where
  "doc_second_pass similarity_threshold [] (pairs, paired_files) = (pairs, paired_files)"
| "doc_second_pass similarity_threshold (file1 # rest) (pairs, paired_files) =
     (if file1 \<in> paired_files
      then doc_second_pass similarity_threshold rest (pairs, paired_files)
      else doc_second_pass similarity_threshold rest
             (doc_second_pass_inner similarity_threshold file1 rest (pairs, paired_files)))"

text \<open>
  \<open>classifications\<close> is a dict filled by \<open>classifications[file] = classification\<close>: an
  association list in insertion order, where a repeated key keeps its place.
\<close>

definition classify_all :: "string list \<Rightarrow> (string \<times> string) list" where
  "classify_all standalone_files =
     fold (\<lambda>file classifications. AList.update file (classify_document file) classifications)
       standalone_files []"

definition find_pairs_and_classify ::
  "string list \<Rightarrow> rat \<Rightarrow> pairing_error + (string list list \<times> (string \<times> string) list)"
where
  "find_pairs_and_classify listing similarity_threshold =
     (let pdf_files = filter (\<lambda>f. suffix ''.pdf'' (lower f)) listing;
          solution_files = filter doc_is_sol pdf_files;
          question_files = filter doc_is_q pdf_files;
          (pairs, paired_files) =
             doc_first_pass similarity_threshold question_files solution_files ([], {});
          remaining_files = filter (\<lambda>f. f \<notin> paired_files) pdf_files;
          (pairs, paired_files) =
             doc_second_pass similarity_threshold remaining_files (pairs, paired_files);
          standalone_files = filter (\<lambda>f. f \<notin> paired_files) pdf_files
      in Inr (pairs, classify_all standalone_files))"

section \<open>Pairing in quick\_organize\_files.py\<close>

text \<open>
  \<open>find_pairs_and_classify\<close> of quick\_organize\_files.py has the loops of the other two
  scripts with its own role tests: the substring tests, on the name alone, and a file may
  pass both. \<open>calculate_filename_similarity\<close> is the same text in all three scripts.
\<close>

fun quick_best_match_loop ::
  "rat \<Rightarrow> string \<Rightarrow> string set \<Rightarrow> string list \<Rightarrow> string option \<times> rat \<Rightarrow> string option \<times> rat"
where
  "quick_best_match_loop similarity_threshold sol_file paired_files [] (best_match, best_score) =
     (best_match, best_score)"
| "quick_best_match_loop similarity_threshold sol_file paired_files (q_file # rest) (best_match, best_score) =
     (if q_file \<in> paired_files
      then quick_best_match_loop similarity_threshold sol_file paired_files rest (best_match, best_score)
      else
        let similarity = calculate_filename_similarity sol_file q_file
        in if similarity > similarity_threshold \<and> similarity > best_score
           then quick_best_match_loop similarity_threshold sol_file paired_files rest (Some q_file, similarity)
           else quick_best_match_loop similarity_threshold sol_file paired_files rest (best_match, best_score))"

fun quick_first_pass :: "rat \<Rightarrow> string list \<Rightarrow> string list \<Rightarrow> grouping_state \<Rightarrow> grouping_state" where
  "quick_first_pass similarity_threshold question_files [] (pairs, paired_files) = (pairs, paired_files)"
| "quick_first_pass similarity_threshold question_files (sol_file # rest) (pairs, paired_files) =
     (if sol_file \<in> paired_files
      then quick_first_pass similarity_threshold question_files rest (pairs, paired_files)
      else
        let best_match =
              fst (quick_best_match_loop similarity_threshold sol_file paired_files question_files (None, 0))
        in if truthy best_match
           then quick_first_pass similarity_threshold question_files rest
                  (pairs @ [ [sol_file, the best_match] ],
                   insert (the best_match) (insert sol_file paired_files))
           else quick_first_pass similarity_threshold question_files rest (pairs, paired_files))"

fun quick_second_pass_inner :: "rat \<Rightarrow> string \<Rightarrow> string list \<Rightarrow> grouping_state \<Rightarrow> grouping_state" where
  "quick_second_pass_inner similarity_threshold file1 [] (pairs, paired_files) = (pairs, paired_files)"
| "quick_second_pass_inner similarity_threshold file1 (file2 # rest) (pairs, paired_files) =
     (if file2 \<in> paired_files
      then quick_second_pass_inner similarity_threshold file1 rest (pairs, paired_files)
      else
        let similarity = calculate_filename_similarity file1 file2
        in if similarity > similarity_threshold
           then
             if (quick_is_solution_file file1 \<and> quick_is_question_file file2)
                \<or> (quick_is_question_file file1 \<and> quick_is_solution_file file2)
             then quick_second_pass_inner similarity_threshold file1 rest
                    (pairs @ [ [file1, file2] ], insert file2 (insert file1 paired_files))
             else quick_second_pass_inner similarity_threshold file1 rest (pairs, paired_files)
           else quick_second_pass_inner similarity_threshold file1 rest (pairs, paired_files))"

fun quick_second_pass :: "rat \<Rightarrow> string list \<Rightarrow> grouping_state \<Rightarrow> grouping_state" where
  "quick_second_pass similarity_threshold [] (pairs, paired_files) = (pairs, paired_files)"
| "quick_second_pass similarity_threshold (file1 # rest) (pairs, paired_files) =
     (if file1 \<in> paired_files
      then quick_second_pass similarity_threshold rest (pairs, paired_files)
      else quick_second_pass similarity_threshold rest
             (quick_second_pass_inner similarity_threshold file1 rest (pairs, paired_files)))"

subsection \<open>\<open>classify_standalone_file\<close>\<close>

text \<open>\<open>os.path.join\<close> of two components (POSIX).\<close>

definition path_join :: "string \<Rightarrow> string \<Rightarrow> string" where
  "path_join a b =
     (if prefix ''/'' b then b
      else if a = [] \<or> suffix ''/'' a then a @ b
      else a @ ''/'' @ b)"

text \<open>\<open>s.count(sub)\<close>: the number of occurrences that do not overlap, from the left.\<close>

function count_sub :: "string \<Rightarrow> string \<Rightarrow> nat" where
  "count_sub sub [] = (if sub = [] then 1 else 0)"
| "count_sub sub (c # cs) =
     (if prefix sub (c # cs) then Suc (count_sub sub (drop (length sub - 1) cs))
      else count_sub sub cs)"
  by pat_completeness auto
termination
  by (relation "measure (\<lambda>(sub, s). length s)") auto

definition content_solution_indicators :: "string list" where
  "content_solution_indicators =
     [''solution'', ''solutions'', ''answer'', ''answers'', ''solved'', ''worked example'',
      ''ans:'', ''sol:'', ''soln:'', ''answer:'', ''solution:'']"

definition content_question_indicators :: "string list" where
  "content_question_indicators =
     [''question'', ''questions'', ''problem'', ''problems'', ''exercise'', ''exercises'',
      ''q1.'', ''q2.'', ''q1)'', ''q2)'', ''question 1'', ''question 2'']"

text \<open>
  The text of the first pages comes from the file system: \<open>extract_text_from_pdf\<close> is a
  parameter, a function from the path to the text, empty when the file cannot be read.
  The product \<open>question_count * 1.5\<close> is taken exactly.
\<close>

definition classify_standalone_file :: "(string \<Rightarrow> string) \<Rightarrow> string \<Rightarrow> string" where
  "classify_standalone_file extract_text_from_pdf pdf_path =
     (let filename = basename pdf_path
      in if quick_is_solution_file filename then ''solution''
         else if quick_is_question_file filename then ''question_paper''
         else
           let text = extract_text_from_pdf pdf_path
           in if text = [] then ''unknown''
              else
                let solution_count =
                      sum_list (map (\<lambda>indicator. count_sub indicator (lower text))
                                  content_solution_indicators);
                    question_count =
                      sum_list (map (\<lambda>indicator. count_sub indicator (lower text))
                                  content_question_indicators)
                in if (of_nat solution_count :: rat) > of_nat question_count * (3 / 2)
                   then ''solution''
                   else if question_count > solution_count then ''question_paper''
                   else ''standalone_note'')"

subsection \<open>\<open>find_pairs_and_classify\<close>\<close>

definition quick_classify_all ::
  "(string \<Rightarrow> string) \<Rightarrow> string \<Rightarrow> string list \<Rightarrow> (string \<times> string) list"
where
  "quick_classify_all extract_text_from_pdf source_dir standalone_files =
     fold (\<lambda>file classifications.
             AList.update file
               (classify_standalone_file extract_text_from_pdf (path_join source_dir file))
               classifications)
       standalone_files []"

text \<open>The listing of \<open>source_dir\<close> is an input, as in organize\_documents.py.\<close>

definition quick_find_pairs_and_classify ::
  "(string \<Rightarrow> string) \<Rightarrow> string \<Rightarrow> string list \<Rightarrow> rat
     \<Rightarrow> string list list \<times> (string \<times> string) list"
where
  "quick_find_pairs_and_classify extract_text_from_pdf source_dir listing similarity_threshold =
     (let pdf_files = filter (\<lambda>f. suffix ''.pdf'' (lower f)) listing;
          solution_files = filter quick_is_solution_file pdf_files;
          question_files = filter quick_is_question_file pdf_files;
          (pairs, paired_files) =
             quick_first_pass similarity_threshold question_files solution_files ([], {});
          remaining_files = filter (\<lambda>f. f \<notin> paired_files) pdf_files;
          (pairs, paired_files) =
             quick_second_pass similarity_threshold remaining_files (pairs, paired_files);
          standalone_files = filter (\<lambda>f. f \<notin> paired_files) pdf_files
      in (pairs, quick_classify_all extract_text_from_pdf source_dir standalone_files))"

subsection \<open>\<open>organize_files\<close> and \<open>main\<close>\<close>

text \<open>
  \<open>organize_files\<close> calls \<open>find_pairs_and_classify(source_dir)\<close>, with the default threshold
  0.8, and copies the files accordingly; \<open>main\<close> parses \<open>source_dir\<close>, \<open>--output-dir\<close> and
  \<open>--threshold\<close>, returns 1 when \<open>source_dir\<close> is no directory, and otherwise calls
  \<open>organize_files(args.source_dir, args.output_dir)\<close> and returns 0. The file system is
  three parameters: \<open>os.path.isdir\<close>, \<open>os.listdir\<close> and the text extraction. The copies
  and the printed lines are left out: the model keeps the exit code and the pairing that
  \<open>organize_files\<close> acts on.
\<close>

definition quick_organize_files ::
  "(string \<Rightarrow> string) \<Rightarrow> (string \<Rightarrow> string list) \<Rightarrow> string \<Rightarrow> string
     \<Rightarrow> string list list \<times> (string \<times> string) list"
where
  "quick_organize_files extract_text_from_pdf listdir source_dir output_dir =
     quick_find_pairs_and_classify extract_text_from_pdf source_dir (listdir source_dir) (8 / 10)"

definition quick_main ::
  "(string \<Rightarrow> bool) \<Rightarrow> (string \<Rightarrow> string) \<Rightarrow> (string \<Rightarrow> string list)
     \<Rightarrow> string \<Rightarrow> string \<Rightarrow> rat
     \<Rightarrow> nat \<times> (string list list \<times> (string \<times> string) list) option"
where
  "quick_main isdir extract_text_from_pdf listdir source_dir output_dir threshold =
     (if \<not> isdir source_dir then (1, None)
      else (0, Some (quick_organize_files extract_text_from_pdf listdir source_dir output_dir)))"

section \<open>Base names in organize\_question\_solution\_pairs.py\<close>

subsection \<open>The pieces of the patterns of \<open>extract_base_name\<close>\<close>

text \<open>
  Each piece gives the number of characters that the rest of the pattern consumes from
  the current position, for the first way of matching that the backtracking search
  finds, or \<open>None\<close>.
\<close>

fun first_some :: "'a option list \<Rightarrow> 'a option" where
  "first_some [] = None"
| "first_some (x # xs) = (case x of Some v \<Rightarrow> Some v | None \<Rightarrow> first_some xs)"

text \<open>
  The opening group \<open>(_|\s|-|^)\<close>, or \<open>(?:_|\s|-)\<close> when \<open>with_caret\<close> is false, and then
  the rest \<open>m\<close>.
\<close>

definition opening_group :: "bool \<Rightarrow> bool \<Rightarrow> (string \<Rightarrow> nat option) \<Rightarrow> string \<Rightarrow> nat option" where
  "opening_group with_caret at_start m s =
     (case (case s of
              [] \<Rightarrow> None
            | c # cs \<Rightarrow> if is_delim c then map_option Suc (m cs) else None)
      of Some n \<Rightarrow> Some n
       | None \<Rightarrow> if with_caret \<and> at_start then m s else None)"

text \<open>An alternation of words under \<open>(?i)\<close>, tried in order, each followed by the rest \<open>k\<close>.\<close>

definition alt_words :: "string list \<Rightarrow> (string \<Rightarrow> nat option) \<Rightarrow> string \<Rightarrow> nat option" where
  "alt_words words k s =
     first_some
       (map (\<lambda>w. if ci_prefix w s
                 then map_option (\<lambda>n. length w + n) (k (drop (length w) s))
                 else None)
            words)"

text \<open>\<open>20\d\d\<close> and the closing group.\<close>

definition year_len :: "string \<Rightarrow> nat option" where
  "year_len s =
     (case s of
        a # b # c # d # rest \<Rightarrow>
          if a = CHR ''2'' \<and> b = CHR ''0'' \<and> is_digit_char c \<and> is_digit_char d
          then map_option (\<lambda>n. 4 + n) (closing_len rest)
          else None
      | _ \<Rightarrow> None)"

text \<open>
  \<open>(?:\s*\d+)?\<close> and the closing group: the longest run of spaces first, then the longest
  run of digits, each given back one character at a time, and at last the closing group
  without a number.
\<close>

definition number_closing_len :: "string \<Rightarrow> nat option" where
  "number_closing_len s =
     (let spaces = length (takeWhile is_space_char s)
      in first_some
           (concat
              (map (\<lambda>k.
                      map (\<lambda>m. map_option (\<lambda>n. k + m + n) (closing_len (drop (k + m) s)))
                          (rev [1 ..< Suc (length (takeWhile is_digit_char (drop k s)))]))
                   (rev [0 ..< Suc spaces]))
            @ [closing_len s]))"

text \<open>\<open>re.sub(pattern, '', base)\<close> for a pattern given by its matches at a position.\<close>

fun re_sub_matches :: "(bool \<Rightarrow> string \<Rightarrow> nat option) \<Rightarrow> bool \<Rightarrow> string \<Rightarrow> string" where
  "re_sub_matches pattern at_start [] = []"
| "re_sub_matches pattern at_start (c # cs) =
     (case pattern at_start (c # cs) of
        None \<Rightarrow> c # re_sub_matches pattern False cs
      | Some 0 \<Rightarrow> c # re_sub_matches pattern False cs
      | Some (Suc m) \<Rightarrow> re_sub_matches pattern False (drop m cs))"

definition solution_words :: "string list" where
  "solution_words =
     [''solution'', ''solutions'', ''soln'', ''solns'', ''sol'', ''sols'',
      ''answer'', ''answers'', ''ans'', ''anss'', ''worked'', ''key'', ''keys'']"

definition prefix_words :: "string list" where
  "prefix_words =
     [''chapter'', ''chp'', ''ch'', ''topic'', ''section'', ''sec'', ''part'', ''tutorial'', ''tut'']"

definition suffix_words :: "string list" where
  "suffix_words =
     [''revision'', ''rev'', ''practice'', ''prac'', ''exercise'', ''ex'', ''worksheet'', ''sheet'']"

text \<open>\<open>re.sub(r'[^\w\s]', ' ', base)\<close> and \<open>re.sub(r'\s+', ' ', base)\<close>.\<close>

definition punctuation_to_space :: "string \<Rightarrow> string" where
  "punctuation_to_space s =
     map (\<lambda>c. if is_word_char c \<or> is_space_char c then c else CHR '' '') s"

function collapse_spaces :: "string \<Rightarrow> string" where
  "collapse_spaces [] = []"
| "collapse_spaces (c # cs) =
     (if is_space_char c then CHR '' '' # collapse_spaces (dropWhile is_space_char cs)
      else c # collapse_spaces cs)"
  by pat_completeness auto
termination
  by (relation "measure length") (auto simp: length_dropWhile_le less_Suc_eq_le)

subsection \<open>\<open>extract_base_name\<close> and the score of two base names\<close>

definition extract_base_name :: "string \<Rightarrow> string" where
  "extract_base_name filename =
     (let base = splitext_root filename;
          base = re_sub_matches
                   (\<lambda>at_start. opening_group True at_start (alt_words solution_words plural_closing_len))
                   True base;
          base = re_sub_matches (\<lambda>at_start. opening_group True at_start year_len) True base;
          base = re_sub_matches
                   (\<lambda>at_start. opening_group True at_start (alt_words prefix_words number_closing_len))
                   True base;
          base = re_sub_matches
                   (\<lambda>at_start. opening_group False at_start (alt_words suffix_words plural_closing_len))
                   True base;
          base = punctuation_to_space base;
          base = strip (collapse_spaces base)
      in base)"

text \<open>\<open>s.split()\<close>: the maximal runs of characters that are no whitespace.\<close>

fun split_from :: "string \<Rightarrow> string \<Rightarrow> string list" where
  "split_from cur [] = (if cur = [] then [] else [cur])"
| "split_from cur (c # cs) =
     (if \<not> is_space_char c then split_from (cur @ [c]) cs
      else if cur = [] then split_from [] cs
      else cur # split_from [] cs)"

text \<open>
  The score that \<open>find_question_solution_pairs\<close> of this script computes for a question
  base name and a solution base name that are not equal.
\<close>

definition base_name_score :: "string \<Rightarrow> string \<Rightarrow> rat" where
  "base_name_score q_base base_name =
     (let q_words = set (split_from [] (lower q_base));
          s_words = set (split_from [] (lower base_name));
          common_words = q_words \<inter> s_words
      in if max (card q_words) (card s_words) > 0
         then of_nat (card common_words) / of_nat (max (card q_words) (card s_words))
         else 0)"

section \<open>JSON recovery in streamlined\_education\_pdf\_to\_json.py\<close>

subsection \<open>Python values, exceptions and the standard library\<close>

text \<open>
  The values that \<open>json.loads\<close> returns, and \<open>None\<close>. A dict is an association list in
  insertion order with distinct keys.
\<close>

datatype pyval =
    PNone
  | PBool bool
  | PInt int
  | PFloat rat
  | PStr string
  | PList "pyval list"
  | PDict "(string \<times> pyval) list"

datatype py_exception =
    JSONDecodeError
  | TypeError
  | AttributeError
  | CalledProcessError
  | OtherException

text \<open>
  The regular expressions of the two functions are constants of the source; the model
  names each of them and leaves their matching to the library.

  Substitutions of \<open>fix_json_string\<close>, \<open>re.sub(pattern, repl, json_str)\<close>:
  \<^item> \<open>ThinkBlocks\<close>: \<open><think>.*?</think>\<close> with \<open>re.DOTALL\<close>, replaced by the empty string;
  \<^item> \<open>CommaBetweenStrings\<close>: a closing quote, a newline and an opening quote or word,
    joined by a comma (the comment says: missing commas between array elements);
  \<^item> \<open>CommaBeforeKey\<close>: a scalar or string, a newline and a quote, joined by a comma;
  \<^item> \<open>TrailingComma\<close>: a comma before a closing bracket or brace, removed;
  \<^item> \<open>QuoteKeys\<close>: a bare property name, put in quotes;
  \<^item> \<open>EscapeBackslash\<close>: a backslash that starts no JSON escape, doubled.

  Patterns with one group, for which \<open>re.findall\<close> returns strings: the fenced block of
  \<open>fix_json_string\<close>; in \<open>create_fallback_json\<close> the \<open>Definition ...\<close> sentence, the
  numbered question and the \<open>Question n ...\<close> sentence. Patterns with two groups, for
  which it returns pairs: the term with a colon, the term with \<open>is\<close>, and the equation.
\<close>

datatype substitution =
    ThinkBlocks
  | CommaBetweenStrings
  | CommaBeforeKey
  | TrailingComma
  | QuoteKeys
  | EscapeBackslash

datatype group_pattern = FencedBlock | DefinitionSentence | NumberedQuestion | QuestionSentence

datatype pair_pattern = TermColon | TermIs | Equation

text \<open>
  \<open>json.loads\<close> and the functions of \<open>re\<close>. \<open>json_loads\<close> returns the parsed value or
  raises; \<open>search_content\<close> is \<open>re.search\<close> for the \<open>"content": {...}\<close> pattern and gives
  \<open>group(1)\<close> of the match.
\<close>

record library =
  json_loads :: "string \<Rightarrow> py_exception + pyval"
  re_sub :: "substitution \<Rightarrow> string \<Rightarrow> string"
  findall_group :: "group_pattern \<Rightarrow> string \<Rightarrow> string list"
  findall_pair :: "pair_pattern \<Rightarrow> string \<Rightarrow> (string \<times> string) list"
  search_content :: "string \<Rightarrow> string option"

text \<open>The outcome of \<open>subprocess.run(..., check=True)\<close>: the standard output, or an exception.\<close>

datatype run_result = Completed string | Failed py_exception

subsection \<open>String methods\<close>

text \<open>\<open>s.find(sub, start)\<close>: the first index at or after \<open>start\<close>, \<open>None\<close> for \<open>-1\<close>.\<close>

fun find_at :: "string \<Rightarrow> string \<Rightarrow> nat \<Rightarrow> nat option" where
  "find_at sub [] i = (if sub = [] then Some i else None)"
| "find_at sub (c # cs) i = (if prefix sub (c # cs) then Some i else find_at sub cs (Suc i))"

definition find_str :: "string \<Rightarrow> string \<Rightarrow> nat \<Rightarrow> nat option" where
  "find_str s sub start = (if start \<le> length s then find_at sub (drop start s) start else None)"

text \<open>\<open>s[i:j]\<close> for indices within the string.\<close>

definition slice :: "string \<Rightarrow> nat \<Rightarrow> nat \<Rightarrow> string" where
  "slice s i j = take (j - i) (drop i s)"

text \<open>\<open>s.replace('\\\\', '\\')\<close>: every pair of backslashes becomes one.\<close>

fun collapse_backslashes :: "string \<Rightarrow> string" where
  "collapse_backslashes (a # b # cs) =
     (if a = CHR 0x5C \<and> b = CHR 0x5C then CHR 0x5C # collapse_backslashes cs
      else a # collapse_backslashes (b # cs))"
| "collapse_backslashes cs = cs"

subsection \<open>\<open>extract_json_from_text\<close>\<close>

text \<open>
  \<open>try: return json.loads(json_str)\<close> with \<open>except json.JSONDecodeError\<close>: a parsed value
  is returned, a decode error goes on with the rest of the function, any other
  exception leaves it.
\<close>

definition try_loads ::
  "library \<Rightarrow> string \<Rightarrow> (py_exception + pyval) \<Rightarrow> py_exception + pyval"
where
  "try_loads lib json_str otherwise =
     (case json_loads lib json_str of
        Inr v \<Rightarrow> Inr v
      | Inl JSONDecodeError \<Rightarrow> otherwise
      | Inl e \<Rightarrow> Inl e)"

text \<open>The last attempt: from the first \<open>{\<close> to the last \<open>}\<close>.\<close>

definition between_braces :: "library \<Rightarrow> string \<Rightarrow> py_exception + pyval" where
  "between_braces lib text =
     (let first_brace = find_str text ''{'' 0;
          last_brace = rfind text CHR ''}''
      in case first_brace of
           Some i \<Rightarrow>
             if last_brace \<noteq> - 1 \<and> int i < last_brace
             then try_loads lib (slice text i (nat last_brace + 1)) (Inr PNone)
             else Inr PNone
         | None \<Rightarrow> Inr PNone)"

text \<open>The second attempt: between single backticks.\<close>

definition between_backticks :: "library \<Rightarrow> string \<Rightarrow> py_exception + pyval" where
  "between_backticks lib text =
     (case find_str text ''`{'' 0 of
        Some json_start \<Rightarrow>
          (case find_str text ''}`'' (json_start + 1) of
             Some json_end \<Rightarrow>
               try_loads lib (strip (slice text (json_start + 1) (json_end + 1)))
                 (between_braces lib text)
           | None \<Rightarrow> between_braces lib text)
      | None \<Rightarrow> between_braces lib text)"

text \<open>
  The argument is the standard output of the model, a \<open>str\<close>, so the first test
  \<open>isinstance(text, dict)\<close> is false.
\<close>

definition extract_json_from_text :: "library \<Rightarrow> string \<Rightarrow> py_exception + pyval" where
  "extract_json_from_text lib text =
     (if text = [] then Inr PNone
      else
        case find_str text ''```json'' 0 of
          Some json_start \<Rightarrow>
            (case find_str text ''```'' (json_start + 7) of
               Some json_end \<Rightarrow>
                 try_loads lib (strip (slice text (json_start + 7) json_end))
                   (between_backticks lib text)
             | None \<Rightarrow> between_backticks lib text)
        | None \<Rightarrow> between_backticks lib text)"

subsection \<open>\<open>fix_json_string\<close>\<close>

text \<open>\<open>not v\<close>\<close>

fun falsy :: "pyval \<Rightarrow> bool" where
  "falsy PNone = True"
| "falsy (PBool b) = (\<not> b)"
| "falsy (PInt n) = (n = 0)"
| "falsy (PFloat x) = (x = 0)"
| "falsy (PStr s) = (s = [])"
| "falsy (PList xs) = (xs = [])"
| "falsy (PDict d) = (d = [])"

text \<open>The body of the function on a string.\<close>

definition repair_string :: "library \<Rightarrow> string \<Rightarrow> string" where
  "repair_string lib json_str =
     (let json_str = re_sub lib ThinkBlocks json_str;
          json_blocks = findall_group lib FencedBlock json_str;
          json_str = (case json_blocks of [] \<Rightarrow> json_str | block # _ \<Rightarrow> block);
          json_str = collapse_backslashes json_str;
          json_str = re_sub lib CommaBetweenStrings json_str;
          json_str = re_sub lib CommaBeforeKey json_str;
          json_str = re_sub lib TrailingComma json_str;
          json_str = re_sub lib QuoteKeys json_str;
          json_str = re_sub lib EscapeBackslash json_str;
          json_str = strip json_str;
          json_str = (if prefix ''{'' json_str then json_str else ''{'' @ json_str);
          json_str = (if suffix ''}'' json_str then json_str else json_str @ ''}'')
      in json_str)"

text \<open>
  The caller passes the result of \<open>extract_json_from_text\<close>, a parsed value or \<open>None\<close>.
  \<open>re.sub\<close> raises \<open>TypeError\<close> on anything but a string.
\<close>

definition fix_json_string :: "library \<Rightarrow> pyval \<Rightarrow> py_exception + string" where
  "fix_json_string lib json_str =
     (if falsy json_str then Inr ''{}''
      else case json_str of
             PStr s \<Rightarrow> Inr (repair_string lib s)
           | _ \<Rightarrow> Inl TypeError)"

subsection \<open>\<open>create_fallback_json\<close>\<close>

definition concept_of_pair :: "string \<times> string \<Rightarrow> pyval" where
  "concept_of_pair match =
     PDict [(''concept_name'', PStr (strip (fst match))), (''definition'', PStr (strip (snd match)))]"

definition concept_of_sentence :: "string \<Rightarrow> pyval" where
  "concept_of_sentence match =
     PDict [(''concept_name'', PStr ''Definition''), (''definition'', PStr (strip match))]"

definition concept_of_formula :: "string \<times> string \<Rightarrow> pyval" where
  "concept_of_formula match =
     PDict [(''concept_name'', PStr ''Formula''), (''definition'', PStr []),
            (''formulas'', PList [PStr (strip (fst match) @ '' = '' @ strip (snd match))])]"

definition question_of :: "string \<Rightarrow> pyval" where
  "question_of match =
     PDict [(''question_text'', PStr (strip match)), (''difficulty_level'', PStr ''Medium''),
            (''solution'', PStr [])]"

definition create_fallback_json :: "library \<Rightarrow> string \<Rightarrow> (string \<times> pyval) list \<Rightarrow> pyval" where
  "create_fallback_json lib text metadata =
     (let concepts =
            map concept_of_pair (findall_pair lib TermColon text)
            @ map concept_of_pair (findall_pair lib TermIs text)
            @ map concept_of_sentence (findall_group lib DefinitionSentence text)
            @ map concept_of_formula (findall_pair lib Equation text);
          questions =
            map question_of (findall_group lib NumberedQuestion text)
            @ map question_of (findall_group lib QuestionSentence text);
          summary = (if length text > 200 then take 200 text @ ''...'' else text)
      in PDict
           [(''metadata'', PDict metadata),
            (''content'',
               PDict [(''summary'', PStr summary),
                      (''key_concepts'', PList (take 5 concepts)),
                      (''practice_questions'', PList (take 3 questions))]),
            (''related_topics'', PList []),
            (''extraction_method'', PStr ''fallback'')])"

subsection \<open>\<open>process_with_deepseek\<close>\<close>

text \<open>\<open>d.update(metadata)\<close> and \<open>d[key] = value\<close> on dicts.\<close>

definition dict_update :: "(string \<times> pyval) list \<Rightarrow> (string \<times> pyval) list \<Rightarrow> (string \<times> pyval) list" where
  "dict_update d other = fold (\<lambda>(k, v) d. AList.update k v d) other d"

text \<open>
  \<open>if "metadata" in parsed_json: parsed_json["metadata"].update(metadata)\<close>, \<open>else:
  parsed_json["metadata"] = metadata\<close>. On a value that is no dict the test or the
  subscript raises \<open>TypeError\<close>; on a \<open>metadata\<close> entry that is no dict \<open>.update\<close> raises
  \<open>AttributeError\<close>.
\<close>

definition add_metadata :: "pyval \<Rightarrow> (string \<times> pyval) list \<Rightarrow> py_exception + pyval" where
  "add_metadata parsed_json metadata =
     (case parsed_json of
        PDict d \<Rightarrow>
          (case map_of d ''metadata'' of
             Some (PDict m) \<Rightarrow> Inr (PDict (AList.update ''metadata'' (PDict (dict_update m metadata)) d))
           | Some _ \<Rightarrow> Inl AttributeError
           | None \<Rightarrow> Inr (PDict (AList.update ''metadata'' (PDict metadata) d)))
      | _ \<Rightarrow> Inl TypeError)"

text \<open>
  The handler of \<open>json.JSONDecodeError\<close>: the \<open>"content"\<close> object alone, and then the
  fallback. Every exception of the inner \<open>try\<close> is passed over.
\<close>

definition content_only :: "library \<Rightarrow> string \<Rightarrow> string \<Rightarrow> (string \<times> pyval) list \<Rightarrow> pyval" where
  "content_only lib fixed_json text metadata =
     (case search_content lib fixed_json of
        Some group1 \<Rightarrow>
          (case json_loads lib (''{'' @ [CHR 0x22] @ ''content'' @ [CHR 0x22] @ '': '' @ group1 @ ''}'') of
             Inr (PDict d) \<Rightarrow> PDict (AList.update ''metadata'' (PDict metadata) d)
           | _ \<Rightarrow> create_fallback_json lib text metadata)
      | None \<Rightarrow> create_fallback_json lib text metadata)"

text \<open>The statements of the outer \<open>try\<close>; \<open>Inl\<close> is an exception that leaves it.\<close>

definition try_body ::
  "library \<Rightarrow> run_result \<Rightarrow> string \<Rightarrow> (string \<times> pyval) list \<Rightarrow> py_exception + pyval"
where
  "try_body lib result text metadata =
     (case result of
        Failed e \<Rightarrow> Inl e
      | Completed stdout \<Rightarrow>
          (let output = strip stdout
           in (case extract_json_from_text lib output of
                 Inl e \<Rightarrow> Inl e
               | Inr json_text \<Rightarrow>
                   (case fix_json_string lib json_text of
                      Inl e \<Rightarrow> Inl e
                    | Inr fixed_json \<Rightarrow>
                        (case json_loads lib fixed_json of
                           Inr parsed_json \<Rightarrow> add_metadata parsed_json metadata
                         | Inl JSONDecodeError \<Rightarrow> Inr (content_only lib fixed_json text metadata)
                         | Inl e \<Rightarrow> Inl e)))))"

text \<open>
  \<open>except subprocess.CalledProcessError\<close> and \<open>except Exception\<close> both return the
  fallback, so every exception of the body ends there.
\<close>

definition process_with_deepseek ::
  "library \<Rightarrow> run_result \<Rightarrow> string \<Rightarrow> (string \<times> pyval) list \<Rightarrow> py_exception + pyval"
where
  "process_with_deepseek lib result text metadata =
     (case try_body lib result text metadata of
        Inr v \<Rightarrow> Inr v
      | Inl CalledProcessError \<Rightarrow> Inr (create_fallback_json lib text metadata)
      | Inl e \<Rightarrow> Inr (create_fallback_json lib text metadata))"

text \<open>\<open>key in value\<close> for a dict; no other value has keys.\<close>

definition has_key :: "string \<Rightarrow> pyval \<Rightarrow> bool" where
  "has_key k v = (case v of PDict d \<Rightarrow> k \<in> fst ` set d | _ \<Rightarrow> False)"

text \<open>
  A library that parses the text \<open>{}\<close> and nothing else, changes no string and finds no
  match: enough to run the recovery on an output without JSON.
\<close>

definition plain_library :: library where
  "plain_library =
     \<lparr> json_loads = (\<lambda>s. if s = ''{}'' then Inr (PDict []) else Inl JSONDecodeError),
       re_sub = (\<lambda>_ s. s),
       findall_group = (\<lambda>_ _. []),
       findall_pair = (\<lambda>_ _. []),
       search_content = (\<lambda>_. None) \<rparr>"

section \<open>Vocabulary of the pairing properties\<close>

text \<open>All files that occur in some pair, in order: \<open>[f for (x, y) in pairs for f in (x, y)]\<close>.\<close>

definition flatten_pairs :: "(string \<times> string) list \<Rightarrow> string list" where
  "flatten_pairs pairs = concat (map (\<lambda>(x, y). [x, y]) pairs)"

text \<open>
  What both passes maintain: \<open>paired_files\<close> holds exactly the members of \<open>pairs\<close>, all
  of them files of the input \<open>F\<close>, and every pair is a solution file followed by a question
  file.
\<close>

definition pairing_inv :: "string set \<Rightarrow> pairing_state \<Rightarrow> bool" where
  "pairing_inv F st =
     (case st of (pairs, paired) \<Rightarrow>
        paired = set (flatten_pairs pairs) \<and> paired \<subseteq> F
        \<and> (\<forall>(s, q) \<in> set pairs. file_is_sol s \<and> file_is_q q))"

text \<open>
  For groups written as lists: no file of a group occurs in a later group, and what the
  loops of quick\_organize\_files.py maintain.
\<close>

fun disjoint_groups :: "string list list \<Rightarrow> bool" where
  "disjoint_groups [] = True"
| "disjoint_groups (g # gs) = (set g \<inter> set (concat gs) = {} \<and> disjoint_groups gs)"

definition grouping_inv :: "string set \<Rightarrow> grouping_state \<Rightarrow> bool" where
  "grouping_inv F st =
     (case st of (pairs, paired) \<Rightarrow> paired = set (concat pairs) \<and> paired \<subseteq> F)"

text \<open>
  The token list that \<open>calculate_filename_similarity\<close> builds for one of its two names
  (\<open>words1\<close> and \<open>words2\<close> before \<open>set(...)\<close>).
\<close>

definition name_tokens :: "string \<Rightarrow> string list" where
  "name_tokens file =
     findall_words
       (remove_indicators question_indicators
          (remove_indicators solution_indicators (lower (splitext_root file))))"


section \<open>Properties of the pairing in streamlined\_education\_pdf\_to\_json.py\<close>


lemma flatten_pairs_Nil: "flatten_pairs [] = []"
  by (simp add: flatten_pairs_def)

lemma flatten_pairs_snoc: "flatten_pairs (ps @ [(a, b)]) = flatten_pairs ps @ [a, b]"
  by (simp add: flatten_pairs_def)

lemma similarity_commute:
  "calculate_filename_similarity a b = calculate_filename_similarity b a"
  by (simp add: calculate_filename_similarity_def Let_def Int_commute max.commute disj_commute)

lemma search_word_empty: "search_word kw [] = False"
  by (simp add: search_word_def keyword_here_def at_boundary_def is_word_opt_def first_char_def)

lemma is_question_file_empty: "is_question_file [] = False"
  by (simp add: is_question_file_def lower_def search_word_empty list_ex_iff)

lemma basename_empty: "basename [] = []"
  by (simp add: basename_def)

lemma file_is_q_nonempty: "file_is_q f \<Longrightarrow> f \<noteq> []"
  by (auto simp: file_is_q_def basename_empty is_question_file_empty)

lemma roles_exclusive: "file_is_sol f \<Longrightarrow> \<not> file_is_q f"
  by (simp add: file_is_sol_def file_is_q_def)

lemma best_match_loop_Some:
  "fst (best_match_loop thr s P qs (bm, bs)) = Some q \<Longrightarrow> bm = Some q \<or> (q \<in> set qs \<and> q \<notin> P)"
  by (induction qs arbitrary: bm bs) (auto simp: Let_def split: if_splits)

lemma best_match_loop_keeps:
  "bm \<noteq> None \<Longrightarrow> fst (best_match_loop thr s P qs (bm, bs)) \<noteq> None"
  by (induction qs arbitrary: bm bs) (auto simp: Let_def)

lemma best_match_loop_finds:
  assumes "bs \<le> thr"
    and "q \<in> set qs" and "q \<notin> P"
    and "calculate_filename_similarity (basename s) (basename q) > thr"
  shows "fst (best_match_loop thr s P qs (None, bs)) \<noteq> None"
  using assms
proof (induction qs arbitrary: bs)
  case Nil
  then show ?case by simp
next
  case (Cons x xs)
  show ?case
  proof (cases "x \<notin> P \<and> calculate_filename_similarity (basename s) (basename x) > thr")
    case True
    with Cons.prems(1) show ?thesis
      by (simp add: Let_def best_match_loop_keeps)
  next
    case False
    with Cons.prems have "q \<in> set xs" by auto
    with Cons.IH[OF Cons.prems(1) _ Cons.prems(3,4)] False show ?thesis
      by (auto simp: Let_def)
  qed
qed


lemma pairing_inv_add:
  assumes "pairing_inv F (pairs, paired)" "a \<in> F" "b \<in> F" "file_is_sol a" "file_is_q b"
  shows "pairing_inv F (pairs @ [(a, b)], insert b (insert a paired))"
    and "pairing_inv F (pairs @ [(a, b)], insert a (insert b paired))"
  using assms by (auto simp: pairing_inv_def flatten_pairs_snoc)

lemma first_pass_inv:
  assumes "pairing_inv F (pairs, paired)"
    and "set sfs \<subseteq> F" and "set qfs \<subseteq> F"
    and "\<forall>s \<in> set sfs. file_is_sol s" and "\<forall>q \<in> set qfs. file_is_q q"
  shows "pairing_inv F (first_pass thr qfs sfs (pairs, paired))"
  using assms
proof (induction sfs arbitrary: pairs paired)
  case Nil
  then show ?case by simp
next
  case (Cons s sfs)
  let ?bm = "fst (best_match_loop thr s paired qfs (None, 0))"
  have rest: "set sfs \<subseteq> F" "\<forall>s \<in> set sfs. file_is_sol s"
    using Cons.prems by auto
  show ?case
  proof (cases "s \<notin> paired \<and> truthy ?bm")
    case True
    then obtain q where q: "?bm = Some q" by (auto simp: truthy_def split: option.splits)
    with best_match_loop_Some[of thr s paired qfs None 0 q] have "q \<in> set qfs" by auto
    with Cons.prems have "q \<in> F" "file_is_q q" "s \<in> F" "file_is_sol s" by auto
    with Cons.prems(1) have "pairing_inv F (pairs @ [(s, q)], insert q (insert s paired))"
      by (intro pairing_inv_add)
    from Cons.IH[OF this rest(1) Cons.prems(3) rest(2) Cons.prems(5)] True q
    show ?thesis by (simp add: Let_def)
  next
    case False
    with Cons.IH[OF Cons.prems(1) rest(1) Cons.prems(3) rest(2) Cons.prems(5)]
    show ?thesis by (auto simp: Let_def)
  qed
qed

lemma first_pass_distinct:
  assumes "paired = set (flatten_pairs pairs)" and "distinct (flatten_pairs pairs)"
    and "\<forall>s \<in> set sfs. file_is_sol s" and "\<forall>q \<in> set qfs. file_is_q q"
  shows "distinct (flatten_pairs (fst (first_pass thr qfs sfs (pairs, paired))))"
  using assms
proof (induction sfs arbitrary: pairs paired)
  case Nil
  then show ?case by simp
next
  case (Cons s sfs)
  let ?bm = "fst (best_match_loop thr s paired qfs (None, 0))"
  have rest: "\<forall>s \<in> set sfs. file_is_sol s"
    using Cons.prems by auto
  show ?case
  proof (cases "s \<notin> paired \<and> truthy ?bm")
    case True
    then obtain q where q: "?bm = Some q" by (auto simp: truthy_def split: option.splits)
    with best_match_loop_Some[of thr s paired qfs None 0 q]
    have qq: "q \<in> set qfs" "q \<notin> paired" by auto
    with Cons.prems have "file_is_q q" "file_is_sol s" by auto
    then have "s \<noteq> q" using roles_exclusive by auto
    with True qq Cons.prems(1,2)
    have "insert q (insert s paired) = set (flatten_pairs (pairs @ [(s, q)]))"
      "distinct (flatten_pairs (pairs @ [(s, q)]))"
      by (auto simp: flatten_pairs_snoc)
    from Cons.IH[OF this rest Cons.prems(4)] True q
    show ?thesis by (simp add: Let_def)
  next
    case False
    with Cons.IH[OF Cons.prems(1,2) rest Cons.prems(4)]
    show ?thesis by (auto simp: Let_def)
  qed
qed

lemma first_pass_mono: "paired \<subseteq> snd (first_pass thr qfs sfs (pairs, paired))"
proof (induction sfs arbitrary: pairs paired)
  case Nil
  then show ?case by simp
next
  case (Cons s sfs)
  show ?case
    using Cons.IH[of paired pairs]
      Cons.IH[of "insert (the (fst (best_match_loop thr s paired qfs (None, 0)))) (insert s paired)"
                 "pairs @ [(s, the (fst (best_match_loop thr s paired qfs (None, 0))))]"]
    by (auto simp: Let_def)
qed

lemma first_pass_maximal:
  assumes "0 \<le> thr" and "\<forall>q \<in> set qfs. q \<noteq> []"
    and "s \<in> set sfs" and "s \<notin> snd (first_pass thr qfs sfs (pairs, paired))"
    and "q \<in> set qfs" and "q \<notin> snd (first_pass thr qfs sfs (pairs, paired))"
  shows "\<not> calculate_filename_similarity (basename s) (basename q) > thr"
  using assms(3,4,6)
proof (induction sfs arbitrary: pairs paired)
  case Nil
  then show ?case by simp
next
  case (Cons x sfs)
  let ?bm = "fst (best_match_loop thr x paired qfs (None, 0))"
  let ?st = "(pairs @ [(x, the ?bm)], insert (the ?bm) (insert x paired))"
  show ?case
  proof (cases "x \<notin> paired \<and> truthy ?bm")
    case True
    then have eq: "first_pass thr qfs (x # sfs) (pairs, paired) = first_pass thr qfs sfs ?st"
      by (simp add: Let_def)
    have "x \<in> snd (first_pass thr qfs sfs ?st)"
      using first_pass_mono[of "snd ?st" thr qfs sfs "fst ?st"] by auto
    with Cons.prems eq have "s \<in> set sfs" by auto
    with Cons.IH[of "fst ?st" "snd ?st"] Cons.prems eq show ?thesis by simp
  next
    case False
    then have eq: "first_pass thr qfs (x # sfs) (pairs, paired) = first_pass thr qfs sfs (pairs, paired)"
      by (auto simp: Let_def)
    show ?thesis
    proof (cases "s = x")
      case sx: True
      have "x \<notin> paired"
        using first_pass_mono[of paired thr qfs sfs pairs] Cons.prems(2) eq sx by auto
      with False have nt: "\<not> truthy ?bm" by simp
      have "?bm = None"
      proof (cases ?bm)
        case None then show ?thesis .
      next
        case (Some q')
        with best_match_loop_Some[of thr x paired qfs None 0 q'] have "q' \<in> set qfs" by auto
        with assms(2) have "q' \<noteq> []" by auto
        with Some nt show ?thesis by (simp add: truthy_def)
      qed
      moreover have "q \<notin> paired"
        using first_pass_mono[of paired thr qfs sfs pairs] Cons.prems(3) eq by auto
      ultimately show ?thesis
        using best_match_loop_finds[of 0 thr q qfs paired x] assms(1,5) sx by auto
    next
      case False
      with Cons.prems have "s \<in> set sfs" by auto
      with Cons.IH[of pairs paired] Cons.prems eq show ?thesis by simp
    qed
  qed
qed

lemma second_pass_inner_inv:
  assumes "pairing_inv F (pairs, paired)" and "file1 \<in> F" and "set rest \<subseteq> F"
  shows "pairing_inv F (second_pass_inner thr file1 rest (pairs, paired))"
  using assms
proof (induction rest arbitrary: pairs paired)
  case Nil
  then show ?case by simp
next
  case (Cons file2 rest)
  then have r: "set rest \<subseteq> F" "file2 \<in> F" by auto
  note IH = Cons.IH[OF _ Cons.prems(2) r(1)]
  show ?case
    using IH[OF Cons.prems(1)]
      IH[OF pairing_inv_add(1)[OF Cons.prems(1,2) r(2)] ]
      IH[OF pairing_inv_add(2)[OF Cons.prems(1) r(2) Cons.prems(2)] ]
    by (auto simp: Let_def)
qed

lemma second_pass_inv:
  assumes "pairing_inv F (pairs, paired)" and "set rem \<subseteq> F"
  shows "pairing_inv F (second_pass thr rem (pairs, paired))"
  using assms
proof (induction rem arbitrary: pairs paired)
  case Nil
  then show ?case by simp
next
  case (Cons file1 rest)
  then have r: "set rest \<subseteq> F" "file1 \<in> F" by auto
  obtain pairs' paired' where st: "second_pass_inner thr file1 rest (pairs, paired) = (pairs', paired')"
    by (cases "second_pass_inner thr file1 rest (pairs, paired)")
  with second_pass_inner_inv[OF Cons.prems(1) r(2) r(1), of thr]
  have "pairing_inv F (pairs', paired')" by simp
  from Cons.IH[OF this r(1)] Cons.IH[OF Cons.prems(1) r(1)] st
  show ?case by simp
qed

lemma second_pass_inner_idle:
  assumes "\<forall>file2 \<in> set rest. file2 \<notin> paired \<longrightarrow>
             calculate_filename_similarity (basename file1) (basename file2) > thr \<longrightarrow>
             \<not> (file_is_sol file1 \<and> file_is_q file2) \<and> \<not> (file_is_q file1 \<and> file_is_sol file2)"
  shows "second_pass_inner thr file1 rest (pairs, paired) = (pairs, paired)"
  using assms by (induction rest) (auto simp: Let_def)

lemma second_pass_idle:
  assumes "\<forall>file1 \<in> set rem. \<forall>file2 \<in> set rem. file1 \<notin> paired \<longrightarrow> file2 \<notin> paired \<longrightarrow>
             calculate_filename_similarity (basename file1) (basename file2) > thr \<longrightarrow>
             \<not> (file_is_sol file1 \<and> file_is_q file2) \<and> \<not> (file_is_q file1 \<and> file_is_sol file2)"
  shows "second_pass thr rem (pairs, paired) = (pairs, paired)"
  using assms
proof (induction rem)
  case Nil
  then show ?case by simp
next
  case (Cons file1 rest)
  then have "second_pass thr rest (pairs, paired) = (pairs, paired)" by auto
  moreover have "file1 \<notin> paired \<Longrightarrow> second_pass_inner thr file1 rest (pairs, paired) = (pairs, paired)"
    using Cons.prems by (intro second_pass_inner_idle) auto
  ultimately show ?case by simp
qed


lemma pairing_inv_init: "pairing_inv F ([], {})"
  by (simp add: pairing_inv_def flatten_pairs_Nil)

lemma find_pairs_unfold:
  assumes "first_pass thr (filter file_is_q file_list) (filter file_is_sol file_list) ([], {}) = (p1, P1)"
    and "second_pass thr (filter (\<lambda>f. f \<notin> P1) file_list) (p1, P1) = (p2, P2)"
  shows "find_question_solution_pairs file_list thr = (p2, filter (\<lambda>f. f \<notin> P2) file_list)"
  using assms by (simp add: find_question_solution_pairs_def Let_def)

lemma find_pairs_inv:
  assumes "first_pass thr (filter file_is_q file_list) (filter file_is_sol file_list) ([], {}) = (p1, P1)"
    and "second_pass thr (filter (\<lambda>f. f \<notin> P1) file_list) (p1, P1) = (p2, P2)"
  shows "pairing_inv (set file_list) (p1, P1)" and "pairing_inv (set file_list) (p2, P2)"
proof -
  have "pairing_inv (set file_list)
          (first_pass thr (filter file_is_q file_list) (filter file_is_sol file_list) ([], {}))"
    by (rule first_pass_inv[OF pairing_inv_init]) auto
  with assms(1) show 1: "pairing_inv (set file_list) (p1, P1)" by simp
  have "pairing_inv (set file_list) (second_pass thr (filter (\<lambda>f. f \<notin> P1) file_list) (p1, P1))"
    by (rule second_pass_inv[OF 1]) auto
  with assms(2) show "pairing_inv (set file_list) (p2, P2)" by simp
qed

lemma find_pairs_second_idle:
  assumes "0 \<le> thr"
    and "first_pass thr (filter file_is_q file_list) (filter file_is_sol file_list) ([], {}) = (p1, P1)"
  shows "second_pass thr (filter (\<lambda>f. f \<notin> P1) file_list) (p1, P1) = (p1, P1)"
proof (rule second_pass_idle, intro ballI impI)
  fix file1 file2
  assume f: "file1 \<in> set (filter (\<lambda>f. f \<notin> P1) file_list)"
            "file2 \<in> set (filter (\<lambda>f. f \<notin> P1) file_list)"
    and sim: "thr < calculate_filename_similarity (basename file1) (basename file2)"
  have ne: "\<forall>q \<in> set (filter file_is_q file_list). q \<noteq> []"
    using file_is_q_nonempty by auto
  have P1: "P1 = snd (first_pass thr (filter file_is_q file_list) (filter file_is_sol file_list) ([], {}))"
    using assms(2) by simp
  have a: "\<not> (file_is_sol file1 \<and> file_is_q file2)"
  proof
    assume "file_is_sol file1 \<and> file_is_q file2"
    with f have "file1 \<in> set (filter file_is_sol file_list)" "file2 \<in> set (filter file_is_q file_list)"
      "file1 \<notin> P1" "file2 \<notin> P1" by auto
    from first_pass_maximal[OF assms(1) ne this(1) this(3)[unfolded P1] this(2) this(4)[unfolded P1] ] sim
    show False by simp
  qed
  have b: "\<not> (file_is_q file1 \<and> file_is_sol file2)"
  proof
    assume "file_is_q file1 \<and> file_is_sol file2"
    with f have "file2 \<in> set (filter file_is_sol file_list)" "file1 \<in> set (filter file_is_q file_list)"
      "file2 \<notin> P1" "file1 \<notin> P1" by auto
    from first_pass_maximal[OF assms(1) ne this(1) this(3)[unfolded P1] this(2) this(4)[unfolded P1] ] sim
    show False by (simp add: similarity_commute[of "basename file1"])
  qed
  from a b show "\<not> (file_is_sol file1 \<and> file_is_q file2) \<and> \<not> (file_is_q file1 \<and> file_is_sol file2)"
    by simp
qed

section \<open>Properties of the pairing in quick\_organize\_files.py\<close>

lemma disjoint_groups_snoc:
  "disjoint_groups (gs @ [g]) \<longleftrightarrow> disjoint_groups gs \<and> set (concat gs) \<inter> set g = {}"
  by (induction gs) auto

lemma contains_empty: "contains kw [] = (kw = [])"
  by simp

lemma quick_question_nonempty: "quick_is_question_file f \<Longrightarrow> f \<noteq> []"
  by (auto simp: quick_is_question_file_def quick_question_keywords_def lower_def)

lemma quick_best_match_loop_Some:
  "fst (quick_best_match_loop thr s P qs (bm, bs)) = Some q \<Longrightarrow> bm = Some q \<or> (q \<in> set qs \<and> q \<notin> P)"
  by (induction qs arbitrary: bm bs) (auto simp: Let_def split: if_splits)

lemma quick_best_match_loop_keeps:
  "bm \<noteq> None \<Longrightarrow> fst (quick_best_match_loop thr s P qs (bm, bs)) \<noteq> None"
  by (induction qs arbitrary: bm bs) (auto simp: Let_def)

lemma quick_best_match_loop_finds:
  assumes "bs \<le> thr"
    and "q \<in> set qs" and "q \<notin> P"
    and "calculate_filename_similarity s q > thr"
  shows "fst (quick_best_match_loop thr s P qs (None, bs)) \<noteq> None"
  using assms
proof (induction qs arbitrary: bs)
  case Nil
  then show ?case by simp
next
  case (Cons x xs)
  show ?case
  proof (cases "x \<notin> P \<and> calculate_filename_similarity s x > thr")
    case True
    with Cons.prems(1) show ?thesis
      by (simp add: Let_def quick_best_match_loop_keeps)
  next
    case False
    with Cons.prems have "q \<in> set xs" by auto
    with Cons.IH[OF Cons.prems(1) _ Cons.prems(3,4)] False show ?thesis
      by (auto simp: Let_def)
  qed
qed

lemma grouping_inv_add:
  assumes "grouping_inv F (pairs, paired)" "a \<in> F" "b \<in> F"
  shows "grouping_inv F (pairs @ [ [a, b] ], insert b (insert a paired))"
  using assms by (auto simp: grouping_inv_def)

lemma quick_first_pass_inv:
  assumes "grouping_inv F (pairs, paired)" and "set sfs \<subseteq> F" and "set qfs \<subseteq> F"
  shows "grouping_inv F (quick_first_pass thr qfs sfs (pairs, paired))"
  using assms
proof (induction sfs arbitrary: pairs paired)
  case Nil
  then show ?case by simp
next
  case (Cons s sfs)
  let ?bm = "fst (quick_best_match_loop thr s paired qfs (None, 0))"
  have rest: "set sfs \<subseteq> F" using Cons.prems by auto
  show ?case
  proof (cases "s \<notin> paired \<and> truthy ?bm")
    case True
    then obtain q where q: "?bm = Some q" by (auto simp: truthy_def split: option.splits)
    with quick_best_match_loop_Some[of thr s paired qfs None 0 q] have "q \<in> set qfs" by auto
    with Cons.prems have "q \<in> F" "s \<in> F" by auto
    with Cons.prems(1) have "grouping_inv F (pairs @ [ [s, q] ], insert q (insert s paired))"
      by (intro grouping_inv_add)
    from Cons.IH[OF this rest Cons.prems(3)] True q
    show ?thesis by (simp add: Let_def)
  next
    case False
    with Cons.IH[OF Cons.prems(1) rest Cons.prems(3)]
    show ?thesis by (auto simp: Let_def)
  qed
qed

lemma quick_first_pass_disjoint:
  assumes "paired = set (concat pairs)" and "disjoint_groups pairs"
  shows "disjoint_groups (fst (quick_first_pass thr qfs sfs (pairs, paired)))"
  using assms
proof (induction sfs arbitrary: pairs paired)
  case Nil
  then show ?case by simp
next
  case (Cons s sfs)
  let ?bm = "fst (quick_best_match_loop thr s paired qfs (None, 0))"
  show ?case
  proof (cases "s \<notin> paired \<and> truthy ?bm")
    case True
    then obtain q where q: "?bm = Some q" by (auto simp: truthy_def split: option.splits)
    with quick_best_match_loop_Some[of thr s paired qfs None 0 q]
    have qq: "q \<notin> paired" by auto
    with True Cons.prems
    have "insert q (insert s paired) = set (concat (pairs @ [ [s, q] ]))"
      "disjoint_groups (pairs @ [ [s, q] ])"
      by (auto simp: disjoint_groups_snoc)
    from Cons.IH[OF this] True q
    show ?thesis by (simp add: Let_def)
  next
    case False
    with Cons.IH[OF Cons.prems]
    show ?thesis by (auto simp: Let_def)
  qed
qed

lemma quick_first_pass_mono: "paired \<subseteq> snd (quick_first_pass thr qfs sfs (pairs, paired))"
proof (induction sfs arbitrary: pairs paired)
  case Nil
  then show ?case by simp
next
  case (Cons s sfs)
  show ?case
    using Cons.IH[of paired pairs]
      Cons.IH[of "insert (the (fst (quick_best_match_loop thr s paired qfs (None, 0)))) (insert s paired)"
                 "pairs @ [ [s, the (fst (quick_best_match_loop thr s paired qfs (None, 0)))] ]"]
    by (auto simp: Let_def)
qed

lemma quick_first_pass_maximal:
  assumes "0 \<le> thr" and "\<forall>q \<in> set qfs. q \<noteq> []"
    and "s \<in> set sfs" and "s \<notin> snd (quick_first_pass thr qfs sfs (pairs, paired))"
    and "q \<in> set qfs" and "q \<notin> snd (quick_first_pass thr qfs sfs (pairs, paired))"
  shows "\<not> calculate_filename_similarity s q > thr"
  using assms(3,4,6)
proof (induction sfs arbitrary: pairs paired)
  case Nil
  then show ?case by simp
next
  case (Cons x sfs)
  let ?bm = "fst (quick_best_match_loop thr x paired qfs (None, 0))"
  let ?st = "(pairs @ [ [x, the ?bm] ], insert (the ?bm) (insert x paired))"
  show ?case
  proof (cases "x \<notin> paired \<and> truthy ?bm")
    case True
    then have eq: "quick_first_pass thr qfs (x # sfs) (pairs, paired) = quick_first_pass thr qfs sfs ?st"
      by (simp add: Let_def)
    have "x \<in> snd (quick_first_pass thr qfs sfs ?st)"
      using quick_first_pass_mono[of "snd ?st" thr qfs sfs "fst ?st"] by auto
    with Cons.prems eq have "s \<in> set sfs" by auto
    with Cons.IH[of "fst ?st" "snd ?st"] Cons.prems eq show ?thesis by simp
  next
    case False
    then have eq: "quick_first_pass thr qfs (x # sfs) (pairs, paired) = quick_first_pass thr qfs sfs (pairs, paired)"
      by (auto simp: Let_def)
    show ?thesis
    proof (cases "s = x")
      case sx: True
      have "x \<notin> paired"
        using quick_first_pass_mono[of paired thr qfs sfs pairs] Cons.prems(2) eq sx by auto
      with False have nt: "\<not> truthy ?bm" by simp
      have "?bm = None"
      proof (cases ?bm)
        case None then show ?thesis .
      next
        case (Some q')
        with quick_best_match_loop_Some[of thr x paired qfs None 0 q'] have "q' \<in> set qfs" by auto
        with assms(2) have "q' \<noteq> []" by auto
        with Some nt show ?thesis by (simp add: truthy_def)
      qed
      moreover have "q \<notin> paired"
        using quick_first_pass_mono[of paired thr qfs sfs pairs] Cons.prems(3) eq by auto
      ultimately show ?thesis
        using quick_best_match_loop_finds[of 0 thr q qfs paired x] assms(1,5) sx by auto
    next
      case False
      with Cons.prems have "s \<in> set sfs" by auto
      with Cons.IH[of pairs paired] Cons.prems eq show ?thesis by simp
    qed
  qed
qed

lemma quick_second_pass_inner_inv:
  assumes "grouping_inv F (pairs, paired)" and "file1 \<in> F" and "set rest \<subseteq> F"
  shows "grouping_inv F (quick_second_pass_inner thr file1 rest (pairs, paired))"
  using assms
proof (induction rest arbitrary: pairs paired)
  case Nil
  then show ?case by simp
next
  case (Cons file2 rest)
  then have r: "set rest \<subseteq> F" "file2 \<in> F" by auto
  note IH = Cons.IH[OF _ Cons.prems(2) r(1)]
  show ?case
    using IH[OF Cons.prems(1)] IH[OF grouping_inv_add[OF Cons.prems(1,2) r(2)] ]
    by (auto simp: Let_def)
qed

lemma quick_second_pass_inv:
  assumes "grouping_inv F (pairs, paired)" and "set rem \<subseteq> F"
  shows "grouping_inv F (quick_second_pass thr rem (pairs, paired))"
  using assms
proof (induction rem arbitrary: pairs paired)
  case Nil
  then show ?case by simp
next
  case (Cons file1 rest)
  then have r: "set rest \<subseteq> F" "file1 \<in> F" by auto
  obtain pairs' paired' where st:
    "quick_second_pass_inner thr file1 rest (pairs, paired) = (pairs', paired')"
    by (cases "quick_second_pass_inner thr file1 rest (pairs, paired)")
  with quick_second_pass_inner_inv[OF Cons.prems(1) r(2) r(1), of thr]
  have "grouping_inv F (pairs', paired')" by simp
  from Cons.IH[OF this r(1)] Cons.IH[OF Cons.prems(1) r(1)] st
  show ?case by simp
qed

lemma quick_second_pass_inner_idle:
  assumes "\<forall>file2 \<in> set rest. file2 \<notin> paired \<longrightarrow>
             calculate_filename_similarity file1 file2 > thr \<longrightarrow>
             \<not> (quick_is_solution_file file1 \<and> quick_is_question_file file2)
             \<and> \<not> (quick_is_question_file file1 \<and> quick_is_solution_file file2)"
  shows "quick_second_pass_inner thr file1 rest (pairs, paired) = (pairs, paired)"
  using assms by (induction rest) (auto simp: Let_def)

lemma quick_second_pass_idle:
  assumes "\<forall>file1 \<in> set rem. \<forall>file2 \<in> set rem. file1 \<notin> paired \<longrightarrow> file2 \<notin> paired \<longrightarrow>
             calculate_filename_similarity file1 file2 > thr \<longrightarrow>
             \<not> (quick_is_solution_file file1 \<and> quick_is_question_file file2)
             \<and> \<not> (quick_is_question_file file1 \<and> quick_is_solution_file file2)"
  shows "quick_second_pass thr rem (pairs, paired) = (pairs, paired)"
  using assms
proof (induction rem)
  case Nil
  then show ?case by simp
next
  case (Cons file1 rest)
  then have "quick_second_pass thr rest (pairs, paired) = (pairs, paired)" by auto
  moreover have "file1 \<notin> paired \<Longrightarrow> quick_second_pass_inner thr file1 rest (pairs, paired) = (pairs, paired)"
    using Cons.prems by (intro quick_second_pass_inner_idle) auto
  ultimately show ?case by simp
qed

lemma fold_update_keys:
  "fst ` set (fold (\<lambda>file d. AList.update file (g file) d) fs d0) = set fs \<union> fst ` set d0"
  by (induction fs arbitrary: d0) (auto simp: dom_update)

lemma quick_classify_all_keys:
  "fst ` set (quick_classify_all extract source_dir fs) = set fs"
  by (simp add: quick_classify_all_def fold_update_keys)

lemma quick_second_idle:
  assumes "0 \<le> thr"
    and "quick_first_pass thr (filter quick_is_question_file fs) (filter quick_is_solution_file fs) ([], {})
           = (p1, P1)"
  shows "quick_second_pass thr (filter (\<lambda>f. f \<notin> P1) fs) (p1, P1) = (p1, P1)"
proof (rule quick_second_pass_idle, intro ballI impI)
  fix file1 file2
  assume f: "file1 \<in> set (filter (\<lambda>f. f \<notin> P1) fs)" "file2 \<in> set (filter (\<lambda>f. f \<notin> P1) fs)"
    and sim: "thr < calculate_filename_similarity file1 file2"
  have ne: "\<forall>q \<in> set (filter quick_is_question_file fs). q \<noteq> []"
    using quick_question_nonempty by auto
  have P1: "P1 = snd (quick_first_pass thr (filter quick_is_question_file fs)
                        (filter quick_is_solution_file fs) ([], {}))"
    using assms(2) by simp
  have a: "\<not> (quick_is_solution_file file1 \<and> quick_is_question_file file2)"
  proof
    assume "quick_is_solution_file file1 \<and> quick_is_question_file file2"
    with f have "file1 \<in> set (filter quick_is_solution_file fs)"
      "file2 \<in> set (filter quick_is_question_file fs)" "file1 \<notin> P1" "file2 \<notin> P1" by auto
    from quick_first_pass_maximal[OF assms(1) ne this(1) this(3)[unfolded P1] this(2) this(4)[unfolded P1] ] sim
    show False by simp
  qed
  have b: "\<not> (quick_is_question_file file1 \<and> quick_is_solution_file file2)"
  proof
    assume "quick_is_question_file file1 \<and> quick_is_solution_file file2"
    with f have "file2 \<in> set (filter quick_is_solution_file fs)"
      "file1 \<in> set (filter quick_is_question_file fs)" "file2 \<notin> P1" "file1 \<notin> P1" by auto
    from quick_first_pass_maximal[OF assms(1) ne this(1) this(3)[unfolded P1] this(2) this(4)[unfolded P1] ] sim
    show False by (simp add: similarity_commute[of file1])
  qed
  from a b show "\<not> (quick_is_solution_file file1 \<and> quick_is_question_file file2)
      \<and> \<not> (quick_is_question_file file1 \<and> quick_is_solution_file file2)"
    by simp
qed

lemma quick_partition:
  "case quick_find_pairs_and_classify extract source_dir listing thr of
     (pairs, classifications) \<Rightarrow>
       set (concat pairs) \<union> fst ` set classifications
         = set (filter (\<lambda>f. suffix ''.pdf'' (lower f)) listing)
       \<and> set (concat pairs) \<inter> fst ` set classifications = {}
       \<and> (0 \<le> thr \<longrightarrow> disjoint_groups pairs)"
proof -
  let ?fs = "filter (\<lambda>f. suffix ''.pdf'' (lower f)) listing"
  obtain p1 P1 where 1:
    "quick_first_pass thr (filter quick_is_question_file ?fs) (filter quick_is_solution_file ?fs) ([], {})
       = (p1, P1)"
    by (cases "quick_first_pass thr (filter quick_is_question_file ?fs)
                 (filter quick_is_solution_file ?fs) ([], {})")
  obtain p2 P2 where 2: "quick_second_pass thr (filter (\<lambda>f. f \<notin> P1) ?fs) (p1, P1) = (p2, P2)"
    by (cases "quick_second_pass thr (filter (\<lambda>f. f \<notin> P1) ?fs) (p1, P1)")
  have res: "quick_find_pairs_and_classify extract source_dir listing thr
               = (p2, quick_classify_all extract source_dir (filter (\<lambda>f. f \<notin> P2) ?fs))"
    using 1 2 by (simp add: quick_find_pairs_and_classify_def Let_def)
  have "grouping_inv (set ?fs)
          (quick_first_pass thr (filter quick_is_question_file ?fs)
             (filter quick_is_solution_file ?fs) ([], {}))"
    by (rule quick_first_pass_inv) (auto simp: grouping_inv_def)
  with 1 have i1: "grouping_inv (set ?fs) (p1, P1)" by simp
  have "grouping_inv (set ?fs) (quick_second_pass thr (filter (\<lambda>f. f \<notin> P1) ?fs) (p1, P1))"
    by (rule quick_second_pass_inv[OF i1]) auto
  with 2 have inv: "P2 = set (concat p2)" "P2 \<subseteq> set ?fs"
    by (auto simp: grouping_inv_def)
  have d: "disjoint_groups p2" if "0 \<le> thr"
  proof -
    from quick_second_idle[OF that 1] 2 have "p2 = p1" by simp
    moreover have "disjoint_groups (fst (quick_first_pass thr (filter quick_is_question_file ?fs)
        (filter quick_is_solution_file ?fs) ([], {})))"
      by (rule quick_first_pass_disjoint) simp_all
    ultimately show ?thesis using 1 by simp
  qed
  from inv d show ?thesis
    unfolding res by (auto simp: quick_classify_all_keys)
qed

section \<open>Evaluation on concrete names\<close>

text \<open>
  The character classes on the characters that occur in the examples below, as rewrite
  rules, and forms of the recursive equations that stop at the first decided condition.
\<close>

lemma word_char_table:
  "is_word_char CHR ''a'' = True"
  "is_word_char CHR ''b'' = True"
  "is_word_char CHR ''c'' = True"
  "is_word_char CHR ''d'' = True"
  "is_word_char CHR ''e'' = True"
  "is_word_char CHR ''f'' = True"
  "is_word_char CHR ''g'' = True"
  "is_word_char CHR ''h'' = True"
  "is_word_char CHR ''i'' = True"
  "is_word_char CHR ''j'' = True"
  "is_word_char CHR ''k'' = True"
  "is_word_char CHR ''l'' = True"
  "is_word_char CHR ''m'' = True"
  "is_word_char CHR ''n'' = True"
  "is_word_char CHR ''o'' = True"
  "is_word_char CHR ''p'' = True"
  "is_word_char CHR ''q'' = True"
  "is_word_char CHR ''r'' = True"
  "is_word_char CHR ''s'' = True"
  "is_word_char CHR ''t'' = True"
  "is_word_char CHR ''u'' = True"
  "is_word_char CHR ''v'' = True"
  "is_word_char CHR ''w'' = True"
  "is_word_char CHR ''x'' = True"
  "is_word_char CHR ''y'' = True"
  "is_word_char CHR ''z'' = True"
  "is_word_char CHR ''J'' = True"
  "is_word_char CHR ''C'' = True"
  "is_word_char CHR ''P'' = True"
  "is_word_char CHR ''Q'' = True"
  "is_word_char CHR ''A'' = True"
  "is_word_char CHR ''0'' = True"
  "is_word_char CHR ''1'' = True"
  "is_word_char CHR ''2'' = True"
  "is_word_char CHR ''3'' = True"
  "is_word_char CHR ''4'' = True"
  "is_word_char CHR ''5'' = True"
  "is_word_char CHR ''6'' = True"
  "is_word_char CHR ''7'' = True"
  "is_word_char CHR ''8'' = True"
  "is_word_char CHR ''9'' = True"
  "is_word_char CHR '' '' = False"
  "is_word_char CHR ''_'' = True"
  "is_word_char CHR ''-'' = False"
  "is_word_char CHR ''.'' = False"
  "is_word_char CHR ''/'' = False"
  by (simp_all add: is_word_char_def)

lemma space_char_table:
  "is_space_char CHR ''a'' = False"
  "is_space_char CHR ''b'' = False"
  "is_space_char CHR ''c'' = False"
  "is_space_char CHR ''d'' = False"
  "is_space_char CHR ''e'' = False"
  "is_space_char CHR ''f'' = False"
  "is_space_char CHR ''g'' = False"
  "is_space_char CHR ''h'' = False"
  "is_space_char CHR ''i'' = False"
  "is_space_char CHR ''j'' = False"
  "is_space_char CHR ''k'' = False"
  "is_space_char CHR ''l'' = False"
  "is_space_char CHR ''m'' = False"
  "is_space_char CHR ''n'' = False"
  "is_space_char CHR ''o'' = False"
  "is_space_char CHR ''p'' = False"
  "is_space_char CHR ''q'' = False"
  "is_space_char CHR ''r'' = False"
  "is_space_char CHR ''s'' = False"
  "is_space_char CHR ''t'' = False"
  "is_space_char CHR ''u'' = False"
  "is_space_char CHR ''v'' = False"
  "is_space_char CHR ''w'' = False"
  "is_space_char CHR ''x'' = False"
  "is_space_char CHR ''y'' = False"
  "is_space_char CHR ''z'' = False"
  "is_space_char CHR ''J'' = False"
  "is_space_char CHR ''C'' = False"
  "is_space_char CHR ''P'' = False"
  "is_space_char CHR ''Q'' = False"
  "is_space_char CHR ''A'' = False"
  "is_space_char CHR ''0'' = False"
  "is_space_char CHR ''1'' = False"
  "is_space_char CHR ''2'' = False"
  "is_space_char CHR ''3'' = False"
  "is_space_char CHR ''4'' = False"
  "is_space_char CHR ''5'' = False"
  "is_space_char CHR ''6'' = False"
  "is_space_char CHR ''7'' = False"
  "is_space_char CHR ''8'' = False"
  "is_space_char CHR ''9'' = False"
  "is_space_char CHR '' '' = True"
  "is_space_char CHR ''_'' = False"
  "is_space_char CHR ''-'' = False"
  "is_space_char CHR ''.'' = False"
  "is_space_char CHR ''/'' = False"
  by (simp_all add: is_space_char_def)

lemma digit_char_table:
  "is_digit_char CHR ''a'' = False"
  "is_digit_char CHR ''b'' = False"
  "is_digit_char CHR ''c'' = False"
  "is_digit_char CHR ''d'' = False"
  "is_digit_char CHR ''e'' = False"
  "is_digit_char CHR ''f'' = False"
  "is_digit_char CHR ''g'' = False"
  "is_digit_char CHR ''h'' = False"
  "is_digit_char CHR ''i'' = False"
  "is_digit_char CHR ''j'' = False"
  "is_digit_char CHR ''k'' = False"
  "is_digit_char CHR ''l'' = False"
  "is_digit_char CHR ''m'' = False"
  "is_digit_char CHR ''n'' = False"
  "is_digit_char CHR ''o'' = False"
  "is_digit_char CHR ''p'' = False"
  "is_digit_char CHR ''q'' = False"
  "is_digit_char CHR ''r'' = False"
  "is_digit_char CHR ''s'' = False"
  "is_digit_char CHR ''t'' = False"
  "is_digit_char CHR ''u'' = False"
  "is_digit_char CHR ''v'' = False"
  "is_digit_char CHR ''w'' = False"
  "is_digit_char CHR ''x'' = False"
  "is_digit_char CHR ''y'' = False"
  "is_digit_char CHR ''z'' = False"
  "is_digit_char CHR ''J'' = False"
  "is_digit_char CHR ''C'' = False"
  "is_digit_char CHR ''P'' = False"
  "is_digit_char CHR ''Q'' = False"
  "is_digit_char CHR ''A'' = False"
  "is_digit_char CHR ''0'' = True"
  "is_digit_char CHR ''1'' = True"
  "is_digit_char CHR ''2'' = True"
  "is_digit_char CHR ''3'' = True"
  "is_digit_char CHR ''4'' = True"
  "is_digit_char CHR ''5'' = True"
  "is_digit_char CHR ''6'' = True"
  "is_digit_char CHR ''7'' = True"
  "is_digit_char CHR ''8'' = True"
  "is_digit_char CHR ''9'' = True"
  "is_digit_char CHR '' '' = False"
  "is_digit_char CHR ''_'' = False"
  "is_digit_char CHR ''-'' = False"
  "is_digit_char CHR ''.'' = False"
  "is_digit_char CHR ''/'' = False"
  by (simp_all add: is_digit_char_def)

lemma delim_table:
  "is_delim CHR ''a'' = False"
  "is_delim CHR ''b'' = False"
  "is_delim CHR ''c'' = False"
  "is_delim CHR ''d'' = False"
  "is_delim CHR ''e'' = False"
  "is_delim CHR ''f'' = False"
  "is_delim CHR ''g'' = False"
  "is_delim CHR ''h'' = False"
  "is_delim CHR ''i'' = False"
  "is_delim CHR ''j'' = False"
  "is_delim CHR ''k'' = False"
  "is_delim CHR ''l'' = False"
  "is_delim CHR ''m'' = False"
  "is_delim CHR ''n'' = False"
  "is_delim CHR ''o'' = False"
  "is_delim CHR ''p'' = False"
  "is_delim CHR ''q'' = False"
  "is_delim CHR ''r'' = False"
  "is_delim CHR ''s'' = False"
  "is_delim CHR ''t'' = False"
  "is_delim CHR ''u'' = False"
  "is_delim CHR ''v'' = False"
  "is_delim CHR ''w'' = False"
  "is_delim CHR ''x'' = False"
  "is_delim CHR ''y'' = False"
  "is_delim CHR ''z'' = False"
  "is_delim CHR ''J'' = False"
  "is_delim CHR ''C'' = False"
  "is_delim CHR ''P'' = False"
  "is_delim CHR ''Q'' = False"
  "is_delim CHR ''A'' = False"
  "is_delim CHR ''0'' = False"
  "is_delim CHR ''1'' = False"
  "is_delim CHR ''2'' = False"
  "is_delim CHR ''3'' = False"
  "is_delim CHR ''4'' = False"
  "is_delim CHR ''5'' = False"
  "is_delim CHR ''6'' = False"
  "is_delim CHR ''7'' = False"
  "is_delim CHR ''8'' = False"
  "is_delim CHR ''9'' = False"
  "is_delim CHR '' '' = True"
  "is_delim CHR ''_'' = True"
  "is_delim CHR ''-'' = True"
  "is_delim CHR ''.'' = False"
  "is_delim CHR ''/'' = False"
  by (simp_all add: is_delim_def space_char_table)

lemma lower_char_table:
  "lower_char CHR ''a'' = CHR ''a''"
  "lower_char CHR ''b'' = CHR ''b''"
  "lower_char CHR ''c'' = CHR ''c''"
  "lower_char CHR ''d'' = CHR ''d''"
  "lower_char CHR ''e'' = CHR ''e''"
  "lower_char CHR ''f'' = CHR ''f''"
  "lower_char CHR ''g'' = CHR ''g''"
  "lower_char CHR ''h'' = CHR ''h''"
  "lower_char CHR ''i'' = CHR ''i''"
  "lower_char CHR ''j'' = CHR ''j''"
  "lower_char CHR ''k'' = CHR ''k''"
  "lower_char CHR ''l'' = CHR ''l''"
  "lower_char CHR ''m'' = CHR ''m''"
  "lower_char CHR ''n'' = CHR ''n''"
  "lower_char CHR ''o'' = CHR ''o''"
  "lower_char CHR ''p'' = CHR ''p''"
  "lower_char CHR ''q'' = CHR ''q''"
  "lower_char CHR ''r'' = CHR ''r''"
  "lower_char CHR ''s'' = CHR ''s''"
  "lower_char CHR ''t'' = CHR ''t''"
  "lower_char CHR ''u'' = CHR ''u''"
  "lower_char CHR ''v'' = CHR ''v''"
  "lower_char CHR ''w'' = CHR ''w''"
  "lower_char CHR ''x'' = CHR ''x''"
  "lower_char CHR ''y'' = CHR ''y''"
  "lower_char CHR ''z'' = CHR ''z''"
  "lower_char CHR ''J'' = CHR ''j''"
  "lower_char CHR ''C'' = CHR ''c''"
  "lower_char CHR ''P'' = CHR ''p''"
  "lower_char CHR ''Q'' = CHR ''q''"
  "lower_char CHR ''A'' = CHR ''a''"
  "lower_char CHR ''0'' = CHR ''0''"
  "lower_char CHR ''1'' = CHR ''1''"
  "lower_char CHR ''2'' = CHR ''2''"
  "lower_char CHR ''3'' = CHR ''3''"
  "lower_char CHR ''4'' = CHR ''4''"
  "lower_char CHR ''5'' = CHR ''5''"
  "lower_char CHR ''6'' = CHR ''6''"
  "lower_char CHR ''7'' = CHR ''7''"
  "lower_char CHR ''8'' = CHR ''8''"
  "lower_char CHR ''9'' = CHR ''9''"
  "lower_char CHR '' '' = CHR '' ''"
  "lower_char CHR ''_'' = CHR ''_''"
  "lower_char CHR ''-'' = CHR ''-''"
  "lower_char CHR ''.'' = CHR ''.''"
  "lower_char CHR ''/'' = CHR ''/''"
  by (simp_all add: lower_char_def char_of_def bit_Suc_0_iff)

lemma prefix_eval:
  "prefix [] ys = True"
  "prefix (x # xs) [] = False"
  "prefix (x # xs) (y # ys) = (if x = y then prefix xs ys else False)"
  by simp_all

lemma suffix_eval: "suffix xs ys = prefix (rev xs) (rev ys)"
  by (simp add: suffix_to_prefix)

lemma ci_prefix_eval:
  "ci_prefix [] s = True"
  "ci_prefix (k # ks) [] = False"
  "ci_prefix (k # ks) (c # cs) = (if lower_char c = lower_char k then ci_prefix ks cs else False)"
  by simp_all

lemma keyword_here_eval:
  "keyword_here kw prev s =
     (if prefix kw s
      then (if at_boundary prev s
            then at_boundary (if kw = [] then prev else Some (last kw)) (drop (length kw) s)
            else False)
      else False)"
  by (simp add: keyword_here_def)

lemma search_from_eval:
  "search_from kw prev [] = keyword_here kw prev []"
  "search_from kw prev (c # cs) =
     (if keyword_here kw prev (c # cs) then True else search_from kw (Some c) cs)"
  by simp_all

lemma list_ex_eval:
  "list_ex P [] = False"
  "list_ex P (x # xs) = (if P x then True else list_ex P xs)"
  by simp_all

lemma contains_eval:
  "contains kw [] = (kw = [])"
  "contains kw (c # cs) = (if prefix kw (c # cs) then True else contains kw cs)"
  by simp_all

lemma re_search_eval:
  "re_search p [] = p []"
  "re_search p (c # cs) = (if p (c # cs) then True else re_search p cs)"
  by simp_all

lemma dot_star_eval:
  "dot_star p [] = p []"
  "dot_star p (c # cs) = (if p (c # cs) then True else if c = CHR 0x0A then False else dot_star p cs)"
  by simp_all

lemma lit_eval: "lit w p s = (if prefix w s then p (drop (length w) s) else False)"
  by (simp add: lit_def)

lemmas eval_rules =
  prefix_eval ci_prefix_eval keyword_here_eval search_from_eval list_ex_eval contains_eval
  re_search_eval dot_star_eval lit_eval alt_def digit_def matched_def
  lower_def search_word_def at_boundary_def is_word_opt_def first_char_def Let_def
  word_char_table space_char_table delim_table lower_char_table digit_char_table
  closing_len_def plural_closing_len_def keyword_len_def match_len_def remove_indicators_def
  solution_indicators_def question_indicators_def findall_words_def
  rfind_def basename_def splitext_root_def

lemmas eval_del =
  Cons_prefix_Cons ci_prefix.simps(3) search_from.simps(2) list_ex_Cons_iff contains.simps(2)
  re_search.simps(2) dot_star.simps(2)

text \<open>The keyword tests on the example names.\<close>

lemma roles_p1_sol:
  "is_solution_file ''p1 sol.pdf'' = True"
  "is_question_file ''p1 sol.pdf'' = False"
  "is_note_file ''p1 sol.pdf'' = False"
  by (simp_all add: is_solution_file_def is_question_file_def is_note_file_def
      solution_keywords_def question_keywords_def note_keywords_def eval_rules del: eval_del)

lemma roles_p1_qn:
  "is_solution_file ''p1 qn.pdf'' = False"
  "is_question_file ''p1 qn.pdf'' = True"
  "is_note_file ''p1 qn.pdf'' = False"
  by (simp_all add: is_solution_file_def is_question_file_def is_note_file_def
      solution_keywords_def question_keywords_def note_keywords_def eval_rules del: eval_del)

lemma roles_p2_qn:
  "is_solution_file ''p2 qn.pdf'' = False"
  "is_question_file ''p2 qn.pdf'' = True"
  "is_note_file ''p2 qn.pdf'' = False"
  by (simp_all add: is_solution_file_def is_question_file_def is_note_file_def
      solution_keywords_def question_keywords_def note_keywords_def eval_rules del: eval_del)

lemma roles_p3_qn:
  "is_solution_file ''p3 qn.pdf'' = False"
  "is_question_file ''p3 qn.pdf'' = True"
  "is_note_file ''p3 qn.pdf'' = False"
  by (simp_all add: is_solution_file_def is_question_file_def is_note_file_def
      solution_keywords_def question_keywords_def note_keywords_def eval_rules del: eval_del)

lemma roles_notes:
  "is_solution_file ''notes.pdf'' = False"
  "is_question_file ''notes.pdf'' = False"
  "is_note_file ''notes.pdf'' = True"
  by (simp_all add: is_solution_file_def is_question_file_def is_note_file_def
      solution_keywords_def question_keywords_def note_keywords_def eval_rules del: eval_del)

lemma roles_qn_sol:
  "is_solution_file ''qn sol.pdf'' = True"
  "is_question_file ''qn sol.pdf'' = True"
  "is_note_file ''qn sol.pdf'' = False"
  by (simp_all add: is_solution_file_def is_question_file_def is_note_file_def
      solution_keywords_def question_keywords_def note_keywords_def eval_rules del: eval_del)

lemma roles_notes_sol:
  "is_solution_file ''notes sol.pdf'' = True"
  "is_question_file ''notes sol.pdf'' = False"
  "is_note_file ''notes sol.pdf'' = True"
  by (simp_all add: is_solution_file_def is_question_file_def is_note_file_def
      solution_keywords_def question_keywords_def note_keywords_def eval_rules del: eval_del)

lemma roles_qn_notes:
  "is_solution_file ''qn notes.pdf'' = False"
  "is_question_file ''qn notes.pdf'' = True"
  "is_note_file ''qn notes.pdf'' = True"
  by (simp_all add: is_solution_file_def is_question_file_def is_note_file_def
      solution_keywords_def question_keywords_def note_keywords_def eval_rules del: eval_del)

lemma roles_ch3:
  "is_solution_file ''ch3.pdf'' = False"
  "is_question_file ''ch3.pdf'' = False"
  "is_note_file ''ch3.pdf'' = False"
  by (simp_all add: is_solution_file_def is_question_file_def is_note_file_def
      solution_keywords_def question_keywords_def note_keywords_def eval_rules del: eval_del)

lemma roles_x:
  "is_solution_file ''x.pdf'' = False"
  "is_question_file ''x.pdf'' = False"
  "is_note_file ''x.pdf'' = False"
  by (simp_all add: is_solution_file_def is_question_file_def is_note_file_def
      solution_keywords_def question_keywords_def note_keywords_def eval_rules del: eval_del)

lemmas example_roles = roles_p1_sol roles_p1_qn roles_p2_qn roles_p3_qn roles_notes roles_qn_sol roles_notes_sol roles_qn_notes roles_ch3 roles_x

lemma example_basenames:
  "basename ''p1 sol.pdf'' = ''p1 sol.pdf''"
  "basename ''p1 qn.pdf'' = ''p1 qn.pdf''"
  "basename ''p2 qn.pdf'' = ''p2 qn.pdf''"
  "basename ''p3 qn.pdf'' = ''p3 qn.pdf''"
  "basename ''notes.pdf'' = ''notes.pdf''"
  "basename ''qn sol.pdf'' = ''qn sol.pdf''"
  "basename ''notes sol.pdf'' = ''notes sol.pdf''"
  "basename ''qn notes.pdf'' = ''qn notes.pdf''"
  "basename ''ch3.pdf'' = ''ch3.pdf''"
  "basename ''x.pdf'' = ''x.pdf''"
  by (simp_all add: eval_rules del: eval_del)

lemma example_pdf_suffix:
  "suffix ''.pdf'' (lower ''p1 sol.pdf'') = True"
  "suffix ''.pdf'' (lower ''p1 qn.pdf'') = True"
  "suffix ''.pdf'' (lower ''p2 qn.pdf'') = True"
  "suffix ''.pdf'' (lower ''p3 qn.pdf'') = True"
  "suffix ''.pdf'' (lower ''notes.pdf'') = True"
  "suffix ''.pdf'' (lower ''qn sol.pdf'') = True"
  "suffix ''.pdf'' (lower ''notes sol.pdf'') = True"
  "suffix ''.pdf'' (lower ''qn notes.pdf'') = True"
  "suffix ''.pdf'' (lower ''ch3.pdf'') = True"
  "suffix ''.pdf'' (lower ''x.pdf'') = True"
  by (simp_all add: suffix_eval eval_rules del: eval_del)

text \<open>The normalised token lists of the example names.\<close>

lemma tokens_p1_sol: "name_tokens ''p1 sol.pdf'' = [''p1'']"
  by (simp add: name_tokens_def eval_rules del: eval_del)

lemma tokens_p1_qn: "name_tokens ''p1 qn.pdf'' = [''p1'']"
  by (simp add: name_tokens_def eval_rules del: eval_del)

lemma tokens_p2_qn: "name_tokens ''p2 qn.pdf'' = [''p2'']"
  by (simp add: name_tokens_def eval_rules del: eval_del)

lemma tokens_p3_qn: "name_tokens ''p3 qn.pdf'' = [''p3'']"
  by (simp add: name_tokens_def eval_rules del: eval_del)

lemma tokens_prelim_2021_qn: "name_tokens ''2021_JC_Prelim_Qn.pdf'' = [''2021_jc_prelim'']"
  by (simp add: name_tokens_def eval_rules del: eval_del)

lemma tokens_prelim_2022_ans: "name_tokens ''2022_JC_Prelim_Ans.pdf'' = [''2022_jc_prelim'']"
  by (simp add: name_tokens_def eval_rules del: eval_del)

lemma tokens_prelim_2021_ans: "name_tokens ''2021_JC_Prelim_Ans.pdf'' = [''2021_jc_prelim'']"
  by (simp add: name_tokens_def eval_rules del: eval_del)

lemma tokens_solution: "name_tokens ''solution.pdf'' = []"
  by (simp add: name_tokens_def eval_rules del: eval_del)

lemmas example_tokens = tokens_p1_sol tokens_p1_qn tokens_p2_qn tokens_p3_qn tokens_prelim_2021_qn tokens_prelim_2022_ans tokens_prelim_2021_ans tokens_solution

lemma similarity_by_tokens:
  "calculate_filename_similarity file1 file2 =
     (if set (name_tokens file1) = {} \<or> set (name_tokens file2) = {} then 0
      else of_nat (card (set (name_tokens file1) \<inter> set (name_tokens file2)))
           / of_nat (max (card (set (name_tokens file1))) (card (set (name_tokens file2)))))"
  by (simp add: calculate_filename_similarity_def name_tokens_def Let_def)

lemma example_similarities:
  "calculate_filename_similarity ''p1 sol.pdf'' ''p1 qn.pdf'' = 1"
  "calculate_filename_similarity ''p1 sol.pdf'' ''p2 qn.pdf'' = 0"
  "calculate_filename_similarity ''p1 sol.pdf'' ''p3 qn.pdf'' = 0"
  by (simp_all add: similarity_by_tokens example_tokens)

lemma example_file_roles:
  "file_is_sol ''p1 sol.pdf'' = True" "file_is_q ''p1 sol.pdf'' = False"
  "file_is_sol ''p1 qn.pdf'' = False" "file_is_q ''p1 qn.pdf'' = True"
  "file_is_sol ''p2 qn.pdf'' = False" "file_is_q ''p2 qn.pdf'' = True"
  "file_is_sol ''p3 qn.pdf'' = False" "file_is_q ''p3 qn.pdf'' = True"
  "file_is_sol ''notes.pdf'' = False" "file_is_q ''notes.pdf'' = False"
  by (simp_all add: file_is_sol_def file_is_q_def example_basenames example_roles)

lemma pairing_example:
  "find_question_solution_pairs [''p1 sol.pdf'', ''p1 qn.pdf'', ''notes.pdf''] (7 / 10)
     = ([(''p1 sol.pdf'', ''p1 qn.pdf'')], [''notes.pdf''])"
  by (simp add: find_question_solution_pairs_def Let_def truthy_def
      example_file_roles example_basenames example_similarities)

lemma example_quick_roles:
  "quick_is_solution_file ''p1 sol.pdf'' = True" "quick_is_question_file ''p1 sol.pdf'' = False"
  "quick_is_solution_file ''p1 qn.pdf'' = False" "quick_is_question_file ''p1 qn.pdf'' = True"
  "quick_is_solution_file ''p2 qn.pdf'' = False" "quick_is_question_file ''p2 qn.pdf'' = True"
  "quick_is_solution_file ''p3 qn.pdf'' = False" "quick_is_question_file ''p3 qn.pdf'' = True"
  "quick_is_solution_file ''notes.pdf'' = False" "quick_is_question_file ''notes.pdf'' = False"
  "quick_is_solution_file ''exam answers.pdf'' = True"
  "quick_is_question_file ''exam answers.pdf'' = True"
  by (simp_all add: quick_is_solution_file_def quick_is_question_file_def
      quick_solution_keywords_def quick_question_keywords_def eval_rules del: eval_del)

lemma tokens_exam_answers: "name_tokens ''exam answers.pdf'' = [''exam'']"
  by (simp add: name_tokens_def eval_rules del: eval_del)

lemma example_quick_suffix: "suffix ''.pdf'' (lower ''exam answers.pdf'') = True"
  by (simp add: suffix_eval eval_rules del: eval_del)

lemma example_unreadable_note:
  "classify_standalone_file (\<lambda>path. []) (path_join ''dir'' ''notes.pdf'') = ''unknown''"
  by (simp add: classify_standalone_file_def path_join_def suffix_eval example_quick_roles
      eval_rules del: eval_del)

lemma quick_pairing_example:
  "quick_find_pairs_and_classify (\<lambda>path. []) ''dir'' [''p1 sol.pdf'', ''p1 qn.pdf'', ''notes.pdf''] (8 / 10)
     = ([ [''p1 sol.pdf'', ''p1 qn.pdf''] ], [(''notes.pdf'', ''unknown'')])"
  by (simp add: quick_find_pairs_and_classify_def quick_classify_all_def Let_def truthy_def
      example_pdf_suffix example_quick_roles example_similarities example_unreadable_note)

text \<open>
  In quick\_organize\_files.py a name may pass both role tests, and then the first pass can
  pair a file with itself: a group may hold one file twice, which is why the groups of
  that script are compared by their sets of files.
\<close>

lemma quick_self_pair_example:
  "quick_find_pairs_and_classify extract source_dir [''exam answers.pdf''] (8 / 10)
     = ([ [''exam answers.pdf'', ''exam answers.pdf''] ], [])"
  by (simp add: quick_find_pairs_and_classify_def quick_classify_all_def Let_def truthy_def
      example_quick_suffix example_quick_roles similarity_by_tokens tokens_exam_answers)

section \<open>The claims about pairing\<close>

lemma streamlined_partition:
  "case find_question_solution_pairs file_list similarity_threshold of
     (pairs, unpaired_files) \<Rightarrow>
       set (flatten_pairs pairs) \<union> set unpaired_files = set file_list
       \<and> set (flatten_pairs pairs) \<inter> set unpaired_files = {}
       \<and> (0 \<le> similarity_threshold \<longrightarrow> distinct (flatten_pairs pairs))"
proof -
  obtain p1 P1 where 1:
    "first_pass similarity_threshold (filter file_is_q file_list) (filter file_is_sol file_list) ([], {}) = (p1, P1)"
    by (cases "first_pass similarity_threshold (filter file_is_q file_list) (filter file_is_sol file_list) ([], {})")
  obtain p2 P2 where 2:
    "second_pass similarity_threshold (filter (\<lambda>f. f \<notin> P1) file_list) (p1, P1) = (p2, P2)"
    by (cases "second_pass similarity_threshold (filter (\<lambda>f. f \<notin> P1) file_list) (p1, P1)")
  have res: "find_question_solution_pairs file_list similarity_threshold
               = (p2, filter (\<lambda>f. f \<notin> P2) file_list)"
    by (rule find_pairs_unfold[OF 1 2])
  have inv: "P2 = set (flatten_pairs p2)" "P2 \<subseteq> set file_list"
    using find_pairs_inv(2)[OF 1 2] by (auto simp: pairing_inv_def)
  have d: "distinct (flatten_pairs p2)" if "0 \<le> similarity_threshold"
  proof -
    from find_pairs_second_idle[OF that 1] 2 have "p2 = p1" by simp
    moreover have "distinct (flatten_pairs (fst (first_pass similarity_threshold
        (filter file_is_q file_list) (filter file_is_sol file_list) ([], {}))))"
      by (rule first_pass_distinct) (auto simp: flatten_pairs_Nil)
    ultimately show ?thesis using 1 by simp
  qed
  from inv d show ?thesis unfolding res by auto
qed

text \<open>
  Claim C1, as stated, fails. With the threshold \<open>-1/2\<close> and the files \<open>p1 sol.pdf\<close>,
  \<open>p2 qn.pdf\<close>, \<open>p3 qn.pdf\<close> every similarity is 0: the first pass pairs nothing
  (\<open>similarity > best_score\<close> fails at 0), and the second pass, which does not leave its
  inner loop after a pair is found, puts \<open>p1 sol.pdf\<close> into two pairs. Both scripts of the
  claim do so.
\<close>

theorem pairing_negative_threshold_counterexample:
  "find_question_solution_pairs [''p1 sol.pdf'', ''p2 qn.pdf'', ''p3 qn.pdf''] (- 1 / 2)
     = ([(''p1 sol.pdf'', ''p2 qn.pdf''), (''p1 sol.pdf'', ''p3 qn.pdf'')], [])
   \<and> \<not> distinct (flatten_pairs
         (fst (find_question_solution_pairs [''p1 sol.pdf'', ''p2 qn.pdf'', ''p3 qn.pdf''] (- 1 / 2))))
   \<and> quick_find_pairs_and_classify (\<lambda>path. []) ''dir''
        [''p1 sol.pdf'', ''p2 qn.pdf'', ''p3 qn.pdf''] (- 1 / 2)
     = ([ [''p1 sol.pdf'', ''p2 qn.pdf''], [''p1 sol.pdf'', ''p3 qn.pdf''] ], [])"
  by (simp add: find_question_solution_pairs_def quick_find_pairs_and_classify_def
      quick_classify_all_def Let_def truthy_def flatten_pairs_def
      example_file_roles example_basenames example_similarities
      example_pdf_suffix example_quick_roles)

text \<open>
  Claim C1, amended: for every list of files and every threshold, the files that occur in
  the pairs together with the unpaired files are exactly the input files, and no file is
  both in a pair and unpaired; for every threshold that is not negative, moreover, no file
  is in more than one pair. The first part of the statement is \<open>find_question_solution_pairs\<close>
  of streamlined\_education\_pdf\_to\_json.py, where no file occurs twice among the members of
  the pairs; the second part is \<open>find_pairs_and_classify\<close> of quick\_organize\_files.py,
  whose input files are the PDF files of the listing, whose unpaired files are the keys
  of \<open>classifications\<close>, and whose pairs share no file with one another.
\<close>

theorem pairing_partition:
  "(case find_question_solution_pairs file_list similarity_threshold of
      (pairs, unpaired_files) \<Rightarrow>
        set (flatten_pairs pairs) \<union> set unpaired_files = set file_list
        \<and> set (flatten_pairs pairs) \<inter> set unpaired_files = {}
        \<and> (0 \<le> similarity_threshold \<longrightarrow> distinct (flatten_pairs pairs)))
   \<and> (case quick_find_pairs_and_classify extract_text_from_pdf source_dir listing similarity_threshold of
      (pairs, classifications) \<Rightarrow>
        set (concat pairs) \<union> fst ` set classifications
          = set (filter (\<lambda>f. suffix ''.pdf'' (lower f)) listing)
        \<and> set (concat pairs) \<inter> fst ` set classifications = {}
        \<and> (0 \<le> similarity_threshold \<longrightarrow> disjoint_groups pairs))"
  by (rule conjI) (rule streamlined_partition, rule quick_partition)

theorem pairing_partition_witness:
  "find_question_solution_pairs [''p1 sol.pdf'', ''p1 qn.pdf'', ''notes.pdf''] (7 / 10)
     = ([(''p1 sol.pdf'', ''p1 qn.pdf'')], [''notes.pdf''])
   \<and> (0::rat) \<le> 7 / 10
   \<and> set (flatten_pairs [(''p1 sol.pdf'', ''p1 qn.pdf'')]) \<union> set [''notes.pdf'']
       = set [''p1 sol.pdf'', ''p1 qn.pdf'', ''notes.pdf'']
   \<and> set (flatten_pairs [(''p1 sol.pdf'', ''p1 qn.pdf'')]) \<inter> set [''notes.pdf''] = {}
   \<and> distinct (flatten_pairs [(''p1 sol.pdf'', ''p1 qn.pdf'')])
   \<and> quick_find_pairs_and_classify (\<lambda>path. []) ''dir''
        [''p1 sol.pdf'', ''p1 qn.pdf'', ''notes.pdf''] (7 / 10)
       = ([ [''p1 sol.pdf'', ''p1 qn.pdf''] ], [(''notes.pdf'', ''unknown'')])
   \<and> disjoint_groups [ [''p1 sol.pdf'', ''p1 qn.pdf''] ]"
  using pairing_partition [where file_list = "[''p1 sol.pdf'', ''p1 qn.pdf'', ''notes.pdf'']"
          and similarity_threshold = "7 / 10" and extract_text_from_pdf = "\<lambda>path. []"
          and source_dir = "''dir''" and listing = "[''p1 sol.pdf'', ''p1 qn.pdf'', ''notes.pdf'']"]
  by (simp add: pairing_example quick_find_pairs_and_classify_def quick_classify_all_def
      Let_def truthy_def example_pdf_suffix example_quick_roles example_similarities
      example_unreadable_note)

text \<open>
  Claim C10: in every pair that \<open>find_question_solution_pairs\<close> returns, from either pass,
  the first component is a solution file and the second a question file (each by the
  role test of the source: one keyword set matches and the other does not). This is the
  order in which \<open>process_batch\<close> unpacks a pair, \<open>for solution_path, question_path in
  pairs\<close>.
\<close>

theorem pairs_solution_first:
  "\<forall>(solution_path, question_path)
      \<in> set (fst (find_question_solution_pairs file_list similarity_threshold)).
     file_is_sol solution_path \<and> file_is_q question_path"
proof -
  obtain p1 P1 where 1:
    "first_pass similarity_threshold (filter file_is_q file_list) (filter file_is_sol file_list) ([], {}) = (p1, P1)"
    by (cases "first_pass similarity_threshold (filter file_is_q file_list) (filter file_is_sol file_list) ([], {})")
  obtain p2 P2 where 2:
    "second_pass similarity_threshold (filter (\<lambda>f. f \<notin> P1) file_list) (p1, P1) = (p2, P2)"
    by (cases "second_pass similarity_threshold (filter (\<lambda>f. f \<notin> P1) file_list) (p1, P1)")
  from find_pairs_inv(2)[OF 1 2] show ?thesis
    unfolding find_pairs_unfold[OF 1 2] by (simp add: pairing_inv_def)
qed

theorem pairs_solution_first_witness:
  "(''p1 sol.pdf'', ''p1 qn.pdf'')
      \<in> set (fst (find_question_solution_pairs [''p1 sol.pdf'', ''p1 qn.pdf'', ''notes.pdf''] (7 / 10)))
   \<and> file_is_sol ''p1 sol.pdf'' \<and> file_is_q ''p1 qn.pdf''"
  using pairs_solution_first [of "[''p1 sol.pdf'', ''p1 qn.pdf'', ''notes.pdf'']" "7 / 10"]
  by (simp add: pairing_example)

section \<open>The claims about the similarity score\<close>

lemma card_Int_le_max:
  "finite A \<Longrightarrow> finite B \<Longrightarrow> card (A \<inter> B) \<le> max (card A) (card B)"
  by (meson Int_lower1 card_mono le_max_iff_disj)

lemma set_tokens_empty: "set (name_tokens f) = {} \<longleftrightarrow> name_tokens f = []"
  by simp

lemma similarity_bounds:
  "0 \<le> calculate_filename_similarity file1 file2"
  "calculate_filename_similarity file1 file2 \<le> 1"
proof -
  let ?A = "set (name_tokens file1)" and ?B = "set (name_tokens file2)"
  have "card (?A \<inter> ?B) \<le> max (card ?A) (card ?B)"
    by (rule card_Int_le_max) simp_all
  then have "(of_nat (card (?A \<inter> ?B)) :: rat) \<le> of_nat (max (card ?A) (card ?B))"
    by (simp only: of_nat_le_iff)
  moreover have "(0::rat) < of_nat (max (card ?A) (card ?B))" if "?A \<noteq> {}"
  proof -
    from that have "0 < card ?A" by (simp add: card_gt_0_iff)
    then have "0 < max (card ?A) (card ?B)" by (simp add: less_max_iff_disj)
    then show ?thesis by (simp only: of_nat_0_less_iff)
  qed
  ultimately have "(of_nat (card (?A \<inter> ?B)) :: rat) / of_nat (max (card ?A) (card ?B)) \<le> 1"
    if "?A \<noteq> {}"
    using that by (simp add: divide_le_eq_1)
  then show "calculate_filename_similarity file1 file2 \<le> 1"
    by (simp add: similarity_by_tokens)
  show "0 \<le> calculate_filename_similarity file1 file2"
    by (simp add: similarity_by_tokens)
qed

text \<open>
  Claim C5: the similarity score is symmetric in its two arguments. It is a function of
  the two names alone, so equal inputs give equal scores.
\<close>

theorem similarity_symmetric:
  "calculate_filename_similarity a b = calculate_filename_similarity b a"
  by (simp add: calculate_filename_similarity_def Let_def Int_commute max.commute disj_commute)

text \<open>
  Claim C6: the score is the number of common tokens divided by the size of the larger
  token set, it is 0 when either token set is empty, and it lies between 0 and 1. The
  token sets are those of \<open>name_tokens\<close>; the quotient is the exact rational.
\<close>

theorem similarity_formula:
  "calculate_filename_similarity file1 file2 =
     (if set (name_tokens file1) = {} \<or> set (name_tokens file2) = {} then 0
      else of_nat (card (set (name_tokens file1) \<inter> set (name_tokens file2)))
           / of_nat (max (card (set (name_tokens file1))) (card (set (name_tokens file2)))))
   \<and> (set (name_tokens file1) = {} \<or> set (name_tokens file2) = {}
        \<longrightarrow> calculate_filename_similarity file1 file2 = 0)
   \<and> 0 \<le> calculate_filename_similarity file1 file2
   \<and> calculate_filename_similarity file1 file2 \<le> 1"
  using similarity_bounds [of file1 file2]
  by (simp add: similarity_by_tokens)

theorem similarity_formula_witness:
  "calculate_filename_similarity ''solution.pdf'' ''p1 qn.pdf'' = 0
   \<and> set (name_tokens ''solution.pdf'') = {}
   \<and> calculate_filename_similarity ''p1 sol.pdf'' ''p1 qn.pdf''
       = of_nat (card ({''p1''} \<inter> {''p1''})) / of_nat (max (card {''p1''}) (card {''p1''}))"
  using similarity_formula [of "''solution.pdf''" "''p1 qn.pdf''"]
    similarity_formula [of "''p1 sol.pdf''" "''p1 qn.pdf''"]
  by (simp add: example_tokens)

text \<open>
  Claim C7, as stated, fails: \<open>solution.pdf\<close> has the non-empty base name \<open>solution\<close>,
  the keyword removal deletes all of it, no token is left, and the score of the name with
  itself is 0.
\<close>

theorem self_similarity_counterexample:
  "splitext_root ''solution.pdf'' = ''solution''
   \<and> calculate_filename_similarity ''solution.pdf'' ''solution.pdf'' = 0"
  by (simp add: similarity_by_tokens example_tokens eval_rules del: eval_del)

text \<open>
  Claim C7, amended: the similarity of a file name with itself is exactly 1 when at least
  one token is left after the extension and the role keywords are removed, and 0 when
  none is left.
\<close>

theorem self_similarity:
  "calculate_filename_similarity f f = (if name_tokens f = [] then 0 else 1)"
proof (cases "name_tokens f = []")
  case True
  then show ?thesis by (simp add: similarity_by_tokens)
next
  case False
  then have "card (set (name_tokens f)) > 0"
    by (simp add: card_gt_0_iff)
  with False show ?thesis by (simp add: similarity_by_tokens)
qed

theorem self_similarity_witness:
  "name_tokens ''p1 sol.pdf'' \<noteq> [] \<and> calculate_filename_similarity ''p1 sol.pdf'' ''p1 sol.pdf'' = 1
   \<and> name_tokens ''solution.pdf'' = [] \<and> calculate_filename_similarity ''solution.pdf'' ''solution.pdf'' = 0"
  using self_similarity [of "''p1 sol.pdf''"] self_similarity [of "''solution.pdf''"]
  by (simp add: example_tokens)

lemma base_name_examples:
  "extract_base_name ''2021_JC_Prelim_Qn.pdf'' = ''JC_Prelim_Qn''"
  "extract_base_name ''2022_JC_Prelim_Ans.pdf'' = ''JC_Prelim''"
  by (simp_all add: extract_base_name_def opening_group_def alt_words_def year_len_def
      solution_words_def prefix_words_def suffix_words_def punctuation_to_space_def strip_def
      eval_rules del: eval_del)

lemma base_name_score_example: "base_name_score ''JC_Prelim_Qn'' ''JC_Prelim'' = 0"
  by (simp add: base_name_score_def eval_rules del: eval_del)

text \<open>
  Claim C4, as stated, fails: \<open>calculate_filename_similarity\<close> removes no year. The two
  names of the claim differ in the year, the year stays in the single token of each name
  (the underscore is a word character), and the score is 0.
\<close>

theorem year_stripping_counterexample:
  "calculate_filename_similarity ''2021_JC_Prelim_Qn.pdf'' ''2022_JC_Prelim_Ans.pdf'' \<noteq> 1"
  by (simp add: similarity_by_tokens example_tokens)

text \<open>
  Claim C4, amended: the normalisation of \<open>calculate_filename_similarity\<close> removes the
  extension and the role keywords and lowercases the name; it keeps the year. The names
  \<open>2021_JC_Prelim_Qn.pdf\<close> and \<open>2022_JC_Prelim_Ans.pdf\<close> normalise to the one-token lists
  \<open>2021_jc_prelim\<close> and \<open>2022_jc_prelim\<close>, and their score is 0; with the same year on
  both sides the token lists are equal and the score is 1. \<open>extract_base_name\<close> of
  organize\_question\_solution\_pairs.py does remove the year, but it keeps the question
  keyword: the base names of the two files are \<open>JC_Prelim_Qn\<close> and \<open>JC_Prelim\<close>, which
  are not equal and whose word score is 0.
\<close>

theorem year_kept_in_tokens:
  "name_tokens ''2021_JC_Prelim_Qn.pdf'' = [''2021_jc_prelim'']
   \<and> name_tokens ''2022_JC_Prelim_Ans.pdf'' = [''2022_jc_prelim'']
   \<and> calculate_filename_similarity ''2021_JC_Prelim_Qn.pdf'' ''2022_JC_Prelim_Ans.pdf'' = 0
   \<and> name_tokens ''2021_JC_Prelim_Ans.pdf'' = [''2021_jc_prelim'']
   \<and> calculate_filename_similarity ''2021_JC_Prelim_Qn.pdf'' ''2021_JC_Prelim_Ans.pdf'' = 1
   \<and> extract_base_name ''2021_JC_Prelim_Qn.pdf'' = ''JC_Prelim_Qn''
   \<and> extract_base_name ''2022_JC_Prelim_Ans.pdf'' = ''JC_Prelim''
   \<and> base_name_score (extract_base_name ''2021_JC_Prelim_Qn.pdf'')
        (extract_base_name ''2022_JC_Prelim_Ans.pdf'') = 0"
  by (simp add: similarity_by_tokens example_tokens base_name_examples base_name_score_example)

section \<open>The claim about keyword matching\<close>

lemma search_from_whole_token:
  assumes "search_from kw prev s" and "kw \<noteq> []"
    and "is_word_char (hd kw)" and "is_word_char (last kw)"
  shows "\<exists>pre post. s = pre @ kw @ post
           \<and> \<not> is_word_opt (if pre = [] then prev else Some (last pre))
           \<and> \<not> is_word_opt (first_char post)"
  using assms(1)
proof (induction s arbitrary: prev)
  case Nil
  with assms(2) show ?case by (simp add: keyword_here_def)
next
  case (Cons c cs)
  show ?case
  proof (cases "keyword_here kw prev (c # cs)")
    case True
    then obtain post where post: "c # cs = kw @ post"
      by (auto simp: keyword_here_def prefix_def)
    with assms(2) have "first_char (c # cs) = Some (hd kw)"
      by (cases kw) (auto simp: first_char_def)
    with True assms(2,3,4) post have
      "\<not> is_word_opt prev" "\<not> is_word_opt (first_char post)"
      by (auto simp: keyword_here_def at_boundary_def is_word_opt_def)
    with post show ?thesis
      by (intro exI [of _ "[]"] exI [of _ post]) simp
  next
    case False
    with Cons.prems have "search_from kw (Some c) cs" by simp
    from Cons.IH [OF this] obtain pre post where
      "cs = pre @ kw @ post"
      "\<not> is_word_opt (if pre = [] then Some c else Some (last pre))"
      "\<not> is_word_opt (first_char post)"
      by blast
    then show ?thesis
      by (intro exI [of _ "c # pre"] exI [of _ post]) auto
  qed
qed

lemma question_keywords_are_words:
  "\<forall>kw \<in> set question_keywords. kw \<noteq> [] \<and> is_word_char (hd kw) \<and> is_word_char (last kw)"
  by (simp add: question_keywords_def word_char_table)

lemma solution_keywords_are_words:
  "\<forall>kw \<in> set solution_keywords. kw \<noteq> [] \<and> is_word_char (hd kw) \<and> is_word_char (last kw)"
  by (simp add: solution_keywords_def word_char_table)

text \<open>
  In organize\_documents.py and streamlined\_education\_pdf\_to\_json.py a name is a question
  file (a solution file) only if a keyword occurs in the lowercased name as a whole
  token: the character before the occurrence, if there is one, is no word character, and
  neither is the character after it.
\<close>

lemma question_keyword_whole_token:
  assumes "is_question_file f"
  shows "\<exists>kw \<in> set question_keywords. \<exists>pre post. lower f = pre @ kw @ post
           \<and> (pre = [] \<or> \<not> is_word_char (last pre))
           \<and> (post = [] \<or> \<not> is_word_char (hd post))"
proof -
  from assms obtain kw where kw: "kw \<in> set question_keywords" "search_from kw None (lower f)"
    by (auto simp: is_question_file_def search_word_def list_ex_iff)
  with question_keywords_are_words have "kw \<noteq> []" "is_word_char (hd kw)" "is_word_char (last kw)"
    by auto
  from search_from_whole_token [OF kw(2) this] obtain pre post where
    "lower f = pre @ kw @ post"
    "\<not> is_word_opt (if pre = [] then None else Some (last pre))"
    "\<not> is_word_opt (first_char post)"
    by blast
  then have "lower f = pre @ kw @ post \<and> (pre = [] \<or> \<not> is_word_char (last pre))
      \<and> (post = [] \<or> \<not> is_word_char (hd post))"
    by (cases post) (auto simp: is_word_opt_def first_char_def split: if_splits)
  with kw(1) show ?thesis by blast
qed

lemma solution_keyword_whole_token:
  assumes "is_solution_file f"
  shows "\<exists>kw \<in> set solution_keywords. \<exists>pre post. lower f = pre @ kw @ post
           \<and> (pre = [] \<or> \<not> is_word_char (last pre))
           \<and> (post = [] \<or> \<not> is_word_char (hd post))"
proof -
  from assms obtain kw where kw: "kw \<in> set solution_keywords" "search_from kw None (lower f)"
    by (auto simp: is_solution_file_def search_word_def list_ex_iff)
  with solution_keywords_are_words have "kw \<noteq> []" "is_word_char (hd kw)" "is_word_char (last kw)"
    by auto
  from search_from_whole_token [OF kw(2) this] obtain pre post where
    "lower f = pre @ kw @ post"
    "\<not> is_word_opt (if pre = [] then None else Some (last pre))"
    "\<not> is_word_opt (first_char post)"
    by blast
  then have "lower f = pre @ kw @ post \<and> (pre = [] \<or> \<not> is_word_char (last pre))
      \<and> (post = [] \<or> \<not> is_word_char (hd post))"
    by (cases post) (auto simp: is_word_opt_def first_char_def split: if_splits)
  with kw(1) show ?thesis by blast
qed

text \<open>
  Claim C3 holds for the classifier of organize\_documents.py and
  streamlined\_education\_pdf\_to\_json.py, which anchor every keyword with \<open>\b\<close>, and fails
  for quick\_organize\_files.py and organize\_question\_solution\_pairs.py, which test
  \<open>keyword in lower_filename\<close>: there \<open>examine.pdf\<close> is a question file, because it
  contains \<open>exam\<close>, and \<open>transport.pdf\<close> is a solution file, because it contains \<open>ans\<close>.
\<close>

theorem substring_match_examine:
  "quick_is_question_file ''examine.pdf'' \<and> \<not> quick_is_solution_file ''examine.pdf''
   \<and> \<not> is_question_file ''examine.pdf''
   \<and> quick_is_solution_file ''transport.pdf'' \<and> \<not> is_solution_file ''transport.pdf''"
  by (simp add: quick_is_question_file_def quick_is_solution_file_def is_question_file_def
      is_solution_file_def quick_question_keywords_def quick_solution_keywords_def
      question_keywords_def solution_keywords_def eval_rules del: eval_del)

section \<open>The claim about the decision table of \<open>classify_document\<close>\<close>

lemma classify_by_pattern_range:
  "classify_by_pattern f
     \<in> {''solution'', ''question_paper'', ''standalone_note'', ''notes_with_solutions'', ''unknown''}"
  by (simp add: classify_by_pattern_def Let_def)

lemma example_patterns:
  "classify_by_pattern ''ch3.pdf'' = ''standalone_note''"
  "classify_by_pattern ''x.pdf'' = ''unknown''"
  by (simp_all add: classify_by_pattern_def paper_code_with_sol_def paper_code_without_sol_def
      chapter_number_def staff_word_def eval_rules del: eval_del)

text \<open>
  Claim C8: \<open>classify_document\<close> follows the priority table. Solution and question
  keywords together give the combined role; otherwise solution and note keywords give
  notes with solutions; question and note keywords give notes with questions; solution
  keywords alone give a solution, question keywords alone a question paper, note keywords
  alone a note; and when no keyword matches the result is that of the naming patterns,
  which is one of four roles or, when no pattern matches either, \<open>unknown\<close>.
\<close>

theorem classify_document_table:
  "(is_solution_file f \<and> is_question_file f
      \<longrightarrow> classify_document f = ''combined_question_solution'')
   \<and> (is_solution_file f \<and> \<not> is_question_file f \<and> is_note_file f
      \<longrightarrow> classify_document f = ''notes_with_solutions'')
   \<and> (\<not> is_solution_file f \<and> is_question_file f \<and> is_note_file f
      \<longrightarrow> classify_document f = ''notes_with_questions'')
   \<and> (is_solution_file f \<and> \<not> is_question_file f \<and> \<not> is_note_file f
      \<longrightarrow> classify_document f = ''solution'')
   \<and> (\<not> is_solution_file f \<and> is_question_file f \<and> \<not> is_note_file f
      \<longrightarrow> classify_document f = ''question_paper'')
   \<and> (\<not> is_solution_file f \<and> \<not> is_question_file f \<and> is_note_file f
      \<longrightarrow> classify_document f = ''standalone_note'')
   \<and> (\<not> is_solution_file f \<and> \<not> is_question_file f \<and> \<not> is_note_file f
      \<longrightarrow> classify_document f = classify_by_pattern f
          \<and> classify_document f
              \<in> {''solution'', ''question_paper'', ''standalone_note'', ''notes_with_solutions'',
                 ''unknown''}
          \<and> (\<not> paper_code_with_sol (lower f) \<and> \<not> paper_code_without_sol (lower f)
               \<and> \<not> chapter_number (lower f) \<and> \<not> staff_word (lower f)
              \<longrightarrow> classify_document f = ''unknown''))"
proof -
  have "classify_document f = classify_by_pattern f"
    if "\<not> is_solution_file f" "\<not> is_question_file f" "\<not> is_note_file f"
    using that by (simp add: classify_document_def)
  moreover have "classify_by_pattern f = ''unknown''"
    if "\<not> paper_code_with_sol (lower f)" "\<not> paper_code_without_sol (lower f)"
       "\<not> chapter_number (lower f)" "\<not> staff_word (lower f)"
    using that by (simp add: classify_by_pattern_def)
  ultimately show ?thesis
    using classify_by_pattern_range [of f]
    by (simp add: classify_document_def)
qed

theorem classify_document_table_witness:
  "classify_document ''qn sol.pdf'' = ''combined_question_solution''
   \<and> classify_document ''notes sol.pdf'' = ''notes_with_solutions''
   \<and> classify_document ''qn notes.pdf'' = ''notes_with_questions''
   \<and> classify_document ''p1 sol.pdf'' = ''solution''
   \<and> classify_document ''p1 qn.pdf'' = ''question_paper''
   \<and> classify_document ''notes.pdf'' = ''standalone_note''
   \<and> classify_document ''ch3.pdf'' = ''standalone_note''
   \<and> classify_document ''x.pdf'' = ''unknown''"
  using classify_document_table [of "''qn sol.pdf''"]
    classify_document_table [of "''notes sol.pdf''"]
    classify_document_table [of "''qn notes.pdf''"]
    classify_document_table [of "''p1 sol.pdf''"]
    classify_document_table [of "''p1 qn.pdf''"]
    classify_document_table [of "''notes.pdf''"]
    classify_document_table [of "''ch3.pdf''"]
    classify_document_table [of "''x.pdf''"]
  by (simp add: example_roles example_patterns)

section \<open>The claim about the validation of the threshold\<close>

lemma doc_best_match_loop_high:
  "1 \<le> thr \<Longrightarrow> doc_best_match_loop thr s P qs (bm, bs) = (bm, bs)"
proof (induction qs)
  case Nil
  then show ?case by simp
next
  case (Cons q qs)
  have "\<not> calculate_filename_similarity s q > thr"
    using similarity_bounds(2) [of s q] Cons.prems by simp
  with Cons show ?case by (simp add: Let_def)
qed

lemma doc_first_pass_high:
  "1 \<le> thr \<Longrightarrow> doc_first_pass thr qfs sfs (pairs, paired) = (pairs, paired)"
  by (induction sfs) (simp_all add: doc_best_match_loop_high truthy_def Let_def)

lemma doc_second_pass_inner_high:
  "1 \<le> thr \<Longrightarrow> doc_second_pass_inner thr file1 rest (pairs, paired) = (pairs, paired)"
proof (induction rest)
  case Nil
  then show ?case by simp
next
  case (Cons file2 rest)
  have "\<not> calculate_filename_similarity file1 file2 > thr"
    using similarity_bounds(2) [of file1 file2] Cons.prems by simp
  with Cons show ?case by (simp add: Let_def)
qed

lemma doc_second_pass_high:
  "1 \<le> thr \<Longrightarrow> doc_second_pass thr rem (pairs, paired) = (pairs, paired)"
  by (induction rem) (simp_all add: doc_second_pass_inner_high)

lemma example_doc_roles:
  "doc_is_sol ''p1 sol.pdf'' = True" "doc_is_q ''p1 sol.pdf'' = False"
  "doc_is_sol ''p1 qn.pdf'' = False" "doc_is_q ''p1 qn.pdf'' = True"
  by (simp_all add: doc_is_sol_def doc_is_q_def example_roles)

lemma example_classifications:
  "classify_document ''p1 sol.pdf'' = ''solution''"
  "classify_document ''p1 qn.pdf'' = ''question_paper''"
  by (simp_all add: classify_document_def example_roles)

text \<open>
  Claim C9, as stated, fails: \<open>find_pairs_and_classify\<close> of organize\_documents.py checks
  its threshold nowhere. With the threshold 2 it returns no pair and classifies both
  files; with the threshold \<open>-1\<close> it returns the pair.
\<close>

theorem threshold_out_of_range_counterexample:
  "find_pairs_and_classify [''p1 sol.pdf'', ''p1 qn.pdf''] 2
     = Inr ([], [(''p1 sol.pdf'', ''solution''), (''p1 qn.pdf'', ''question_paper'')])
   \<and> find_pairs_and_classify [''p1 sol.pdf'', ''p1 qn.pdf''] (- 1)
     = Inr ([ [''p1 sol.pdf'', ''p1 qn.pdf''] ], [])"
  by (simp add: find_pairs_and_classify_def Let_def truthy_def classify_all_def
      example_pdf_suffix example_doc_roles example_similarities example_classifications)

text \<open>
  Claim C9, amended: the pairing operation performs no validation of its threshold. For
  every threshold \<open>find_pairs_and_classify\<close> of organize\_documents.py returns a result and
  never fails with \<open>InvalidArgument\<close>; a threshold of 1 or more is accepted and yields no
  pair, every PDF file of the listing being classified on its own. \<open>main\<close> of
  quick\_organize\_files.py does not use the threshold it parses: its result is the same
  for every two thresholds.
\<close>

theorem threshold_not_validated:
  "find_pairs_and_classify listing similarity_threshold \<noteq> Inl InvalidArgument
   \<and> (1 \<le> similarity_threshold \<longrightarrow>
        find_pairs_and_classify listing similarity_threshold
          = Inr ([], classify_all (filter (\<lambda>f. suffix ''.pdf'' (lower f)) listing)))
   \<and> quick_main isdir extract_text_from_pdf listdir source_dir output_dir threshold
       = quick_main isdir extract_text_from_pdf listdir source_dir output_dir threshold'"
  by (simp add: find_pairs_and_classify_def Let_def doc_first_pass_high doc_second_pass_high
      quick_main_def split: prod.splits)

theorem threshold_not_validated_witness:
  "(1::rat) \<le> 2
   \<and> find_pairs_and_classify [''p1 sol.pdf'', ''p1 qn.pdf''] 2
       = Inr ([], [(''p1 sol.pdf'', ''solution''), (''p1 qn.pdf'', ''question_paper'')])
   \<and> quick_main (\<lambda>dir. True) (\<lambda>path. []) (\<lambda>dir. [''p1 sol.pdf'', ''p1 qn.pdf'', ''notes.pdf'']) ''dir'' ''out'' 2
       = quick_main (\<lambda>dir. True) (\<lambda>path. []) (\<lambda>dir. [''p1 sol.pdf'', ''p1 qn.pdf'', ''notes.pdf'']) ''dir'' ''out'' (8 / 10)
   \<and> quick_main (\<lambda>dir. True) (\<lambda>path. []) (\<lambda>dir. [''p1 sol.pdf'', ''p1 qn.pdf'', ''notes.pdf'']) ''dir'' ''out'' 2
       = (0, Some ([ [''p1 sol.pdf'', ''p1 qn.pdf''] ], [(''notes.pdf'', ''unknown'')]))"
  using threshold_not_validated [where listing = "[''p1 sol.pdf'', ''p1 qn.pdf'']"
          and similarity_threshold = 2 and isdir = "\<lambda>dir. True" and extract_text_from_pdf = "\<lambda>path. []"
          and listdir = "\<lambda>dir. [''p1 sol.pdf'', ''p1 qn.pdf'', ''notes.pdf'']"
          and source_dir = "''dir''" and output_dir = "''out''" and threshold = 2
          and threshold' = "8 / 10"]
  by (simp add: classify_all_def example_pdf_suffix example_classifications
      quick_main_def quick_organize_files_def quick_pairing_example [simplified])

section \<open>The claim about the JSON recovery\<close>

lemma find_at_absent: "sub \<noteq> [] \<Longrightarrow> hd sub \<notin> set s \<Longrightarrow> find_at sub s i = None"
proof (induction s arbitrary: i)
  case Nil
  then show ?case by simp
next
  case (Cons c cs)
  from Cons.prems have "\<not> prefix sub (c # cs)"
    by (cases sub) auto
  with Cons show ?case by simp
qed

lemma find_absent: "sub \<noteq> [] \<Longrightarrow> hd sub \<notin> set s \<Longrightarrow> find_str s sub start = None"
  by (auto simp: find_str_def intro!: find_at_absent dest: in_set_dropD)

lemma set_strip: "set (strip s) \<subseteq> set s"
proof -
  have "set (dropWhile is_space_char (rev (dropWhile is_space_char s)))
          \<subseteq> set (rev (dropWhile is_space_char s))"
    by (auto dest: set_dropWhileD)
  also have "\<dots> \<subseteq> set s"
    by (auto dest: set_dropWhileD)
  finally show ?thesis by (simp add: strip_def)
qed

lemma extract_without_json:
  assumes "CHR ''`'' \<notin> set text" and "CHR ''{'' \<notin> set text"
  shows "extract_json_from_text lib text = Inr PNone"
  using assms
  by (simp add: extract_json_from_text_def between_backticks_def between_braces_def find_absent)

lemma process_with_deepseek_returns:
  "\<exists>v. process_with_deepseek lib result text metadata = Inr v"
  by (simp add: process_with_deepseek_def split: sum.splits py_exception.splits)

lemma fallback_has_keys:
  "has_key ''metadata'' (create_fallback_json lib text metadata)"
  "has_key ''content'' (create_fallback_json lib text metadata)"
  by (simp_all add: create_fallback_json_def has_key_def Let_def)

text \<open>
  Claim C2 fails on the code. When the output of the model has no backtick and no brace
  (the empty output is one case), \<open>extract_json_from_text\<close> returns \<open>None\<close>,
  \<open>fix_json_string\<close> turns \<open>None\<close> into the text \<open>{}\<close>, \<open>json.loads\<close> parses it, and the
  function returns a dict whose only key is \<open>metadata\<close>: no \<open>content\<close>, and the fallback
  is never built. The only fact used about the library is that \<open>json.loads('{}')\<close> is the
  empty dict.
\<close>

theorem recovery_without_content:
  assumes "json_loads lib ''{}'' = Inr (PDict [])"
    and "CHR ''`'' \<notin> set stdout" and "CHR ''{'' \<notin> set stdout"
  shows "process_with_deepseek lib (Completed stdout) text metadata
           = Inr (PDict [(''metadata'', PDict metadata)])
         \<and> \<not> has_key ''content'' (PDict [(''metadata'', PDict metadata)])"
proof -
  have "CHR ''`'' \<notin> set (strip stdout)" "CHR ''{'' \<notin> set (strip stdout)"
    using assms(2,3) set_strip [of stdout] by auto
  then have "extract_json_from_text lib (strip stdout) = Inr PNone"
    by (rule extract_without_json)
  with assms(1) show ?thesis
    by (simp add: process_with_deepseek_def try_body_def fix_json_string_def add_metadata_def
        has_key_def)
qed

theorem recovery_without_content_witness:
  "json_loads plain_library ''{}'' = Inr (PDict [])
   \<and> CHR ''`'' \<notin> set ''I cannot convert this.'' \<and> CHR ''{'' \<notin> set ''I cannot convert this.''
   \<and> process_with_deepseek plain_library (Completed ''I cannot convert this.'') ''Some text.''
        [(''subject'', PStr ''Mathematics'')]
       = Inr (PDict [(''metadata'', PDict [(''subject'', PStr ''Mathematics'')])])
   \<and> process_with_deepseek plain_library (Completed []) ''Some text.''
        [(''subject'', PStr ''Mathematics'')]
       = Inr (PDict [(''metadata'', PDict [(''subject'', PStr ''Mathematics'')])])"
  using recovery_without_content [of plain_library "''I cannot convert this.''"
          "''Some text.''" "[(''subject'', PStr ''Mathematics'')]"]
    recovery_without_content [of plain_library "[]"
          "''Some text.''" "[(''subject'', PStr ''Mathematics'')]"]
  by (simp add: plain_library_def)

end
